theory Spec2Isabelle
  imports Main
begin

section \<open>Inventory demo: a shallow embedding of app.py\<close>

text \<open>
  The application is one Flask module, \<^verbatim>\<open>src/app/app.py\<close>. It builds a PostgreSQL
  connection URI from the environment, opens one connection per unit of work through the
  context manager \<^verbatim>\<open>get_db\<close>, runs five SQL statements against the table \<^verbatim>\<open>items\<close>,
  and renders an HTML page by string interpolation.

  Python strings are modelled as \<^typ>\<open>string\<close>, lists of characters, where a character
  is a code point below 256 (ASCII and the Latin-1 supplement); text with other code
  points is outside the model. Python's unbounded integers are modelled as
  \<^typ>\<open>int\<close>, exceptions as values of the type \<open>exn\<close>,
  and a function that may raise returns a sum, \<open>Inl\<close> carrying the exception. Python
  names that start with an underscore lose it (\<^verbatim>\<open>_esc\<close> is \<open>esc\<close>), since an Isabelle
  name cannot start with one.
\<close>

subsection \<open>Strings\<close>

text \<open>The single quote, which cannot end a string literal.\<close>

definition sq :: string where
  "sq = [CHR 0x27]"

text \<open>
  \<^verbatim>\<open>str.replace(old, new)\<close> for a pattern \<^verbatim>\<open>old\<close> of one character: every occurrence is
  replaced, left to right.
\<close>

definition replace_char :: "char \<Rightarrow> string \<Rightarrow> string \<Rightarrow> string" where
  "replace_char old new s = concat (map (\<lambda>c. if c = old then new else [c]) s)"

text \<open>
  \<^verbatim>\<open>str.isspace\<close> on one character: tab, line feed, vertical tab, form feed, carriage
  return, the four separators \<^verbatim>\<open>0x1c\<close> to \<^verbatim>\<open>0x1f\<close>, the space, the next-line
  control \<^verbatim>\<open>U+0085\<close> and the no-break space \<^verbatim>\<open>U+00A0\<close>. These are all the code points
  below 256 that Python takes for whitespace; the others (\<^verbatim>\<open>U+1680\<close>, \<^verbatim>\<open>U+2000\<close> to
  \<^verbatim>\<open>U+200A\<close>, \<^verbatim>\<open>U+2028\<close>, \<^verbatim>\<open>U+2029\<close>, \<^verbatim>\<open>U+202F\<close>, \<^verbatim>\<open>U+205F\<close>, \<^verbatim>\<open>U+3000\<close>) are
  not characters of the model.
\<close>

definition is_space :: "char \<Rightarrow> bool" where
  "is_space c = (c \<in> {CHR 0x09, CHR 0x0A, CHR 0x0B, CHR 0x0C, CHR 0x0D,
                        CHR 0x1C, CHR 0x1D, CHR 0x1E, CHR 0x1F, CHR 0x20,
                        CHR 0x85, CHR 0xA0})"

text \<open>\<^verbatim>\<open>str.strip()\<close>: whitespace is removed at both ends.\<close>

definition strip :: "string \<Rightarrow> string" where
  "strip s = rev (dropWhile is_space (rev (dropWhile is_space s)))"

text \<open>\<^verbatim>\<open>str.rstrip(chars)\<close>: trailing characters of the given set are removed.\<close>

definition rstrip_chars :: "char list \<Rightarrow> string \<Rightarrow> string" where
  "rstrip_chars cs s = rev (dropWhile (\<lambda>c. c \<in> set cs) (rev s))"

text \<open>\<^verbatim>\<open>sub in s\<close> on two strings.\<close>

fun is_substring :: "string \<Rightarrow> string \<Rightarrow> bool" where
  "is_substring sub [] = (sub = [])"
| "is_substring sub (c # s) = (take (length sub) (c # s) = sub \<or> is_substring sub s)"

text \<open>\<^verbatim>\<open>str(n)\<close> for an integer: decimal digits, with a minus sign when negative.\<close>

fun str_nat :: "nat \<Rightarrow> string" where
  "str_nat n =
     (if n < 10 then [''0123456789'' ! n]
      else str_nat (n div 10) @ [''0123456789'' ! (n mod 10)])"

declare str_nat.simps [simp del]

definition str_int :: "int \<Rightarrow> string" where
  "str_int i = (if i < 0 then CHR ''-'' # str_nat (nat (- i)) else str_nat (nat i))"

subsection \<open>Exceptions\<close>

text \<open>
  The exception classes the control flow of the module tells apart:
  \<^verbatim>\<open>psycopg2.OperationalError\<close>, which alone is retried by \<^verbatim>\<open>_connect_with_retry\<close>;
  the other subclasses of \<^verbatim>\<open>Exception\<close>, caught by every \<^verbatim>\<open>except Exception\<close>; and
  the exceptions outside \<^verbatim>\<open>Exception\<close> (\<^verbatim>\<open>KeyboardInterrupt\<close>, \<^verbatim>\<open>SystemExit\<close>,
  \<^verbatim>\<open>GeneratorExit\<close>), which no handler of the module catches. Each carries its message,
  the text \<^verbatim>\<open>str(exc)\<close> gives. \<^verbatim>\<open>ConnectionError\<close> is the builtin class of that name,
  a subclass of \<^verbatim>\<open>OSError\<close>; \<^verbatim>\<open>psycopg2.OperationalError\<close> is not one of its
  subclasses, and no line of the module raises it.
\<close>

datatype exn =
    OperationalError string
  | TypeError string
  | AttributeError string
  | KeyError string
  | ValueError string
  | ConnectionError string
  | OtherException string
  | NonException string

fun is_OperationalError :: "exn \<Rightarrow> bool" where
  "is_OperationalError (OperationalError _) = True"
| "is_OperationalError _ = False"

fun is_TypeError :: "exn \<Rightarrow> bool" where
  "is_TypeError (TypeError _) = True"
| "is_TypeError _ = False"

fun is_ConnectionError :: "exn \<Rightarrow> bool" where
  "is_ConnectionError (ConnectionError _) = True"
| "is_ConnectionError _ = False"

fun is_Exception :: "exn \<Rightarrow> bool" where
  "is_Exception (NonException _) = False"
| "is_Exception _ = True"

fun str_exn :: "exn \<Rightarrow> string" where
  "str_exn (OperationalError m) = m"
| "str_exn (TypeError m) = m"
| "str_exn (AttributeError m) = m"
| "str_exn (KeyError m) = m"
| "str_exn (ValueError m) = m"
| "str_exn (ConnectionError m) = m"
| "str_exn (OtherException m) = m"
| "str_exn (NonException m) = m"

subsection \<open>Database URL construction\<close>

text \<open>\<^verbatim>\<open>os.environ.get(key, default)\<close> on the environment, a map from names to values.\<close>

definition environ_get :: "(string \<rightharpoonup> string) \<Rightarrow> string \<Rightarrow> string \<Rightarrow> string" where
  "environ_get environ key dflt = (case environ key of None \<Rightarrow> dflt | Some v \<Rightarrow> v)"

text \<open>
  The replacement helper of the substitution. Its argument is the match object, here the
  pair of its two groups: the separator before \<^verbatim>\<open>sslmode=\<close> and the optional \<^verbatim>\<open>&\<close>
  after the value.
\<close>

definition remove_sslmode_param :: "string \<times> string \<Rightarrow> string" where
  "remove_sslmode_param m =
     (let prefix = fst m; suffix = snd m in
      if prefix = ''?'' \<and> suffix = ''&'' then ''?''
      else if prefix = ''?'' \<and> suffix = '''' then ''''
      else if prefix = ''&'' \<and> suffix = ''&'' then ''&''
      else '''')"

text \<open>
  A match of the pattern \<^verbatim>\<open>([?&])sslmode=[^&]*(&?)\<close> at the start of a string: the two
  groups and the text left after the match. The value \<^verbatim>\<open>[^&]*\<close> is greedy and runs to the
  next \<^verbatim>\<open>&\<close> or to the end, and the second group takes that \<^verbatim>\<open>&\<close> when there is one, so
  the pattern never backtracks.
\<close>

definition sslmode_match :: "string \<Rightarrow> ((string \<times> string) \<times> string) option" where
  "sslmode_match s =
     (case s of
        [] \<Rightarrow> None
      | c # t \<Rightarrow>
          if (c = CHR ''?'' \<or> c = CHR ''&'') \<and> take 8 t = ''sslmode='' then
            (let r = dropWhile (\<lambda>x. x \<noteq> CHR ''&'') (drop 8 t) in
             case r of
               [] \<Rightarrow> Some (([c], ''''), [])
             | a # r' \<Rightarrow>
                 if a = CHR ''&'' then Some (([c], ''&''), r') else Some (([c], ''''), r))
          else None)"

text \<open>
  \<^verbatim>\<open>re.sub(pattern, _remove_sslmode_param, uri)\<close>: the string is scanned from the left; at
  a match the replacement is emitted and the scan goes on after the match, so the matches
  do not overlap; elsewhere the character is copied.
\<close>

function re_sub_sslmode :: "string \<Rightarrow> string" where
  "re_sub_sslmode [] = []"
| "re_sub_sslmode (c # t) =
     (case sslmode_match (c # t) of
        Some (m, rest) \<Rightarrow> remove_sslmode_param m @ re_sub_sslmode rest
      | None \<Rightarrow> c # re_sub_sslmode t)"
  by pat_completeness auto
termination
proof (relation "measure length")
  show "wf (measure length)" by simp
next
  fix c :: char and t :: string and x2 :: "(string \<times> string) \<times> string"
    and m :: "string \<times> string" and rest :: string
  assume "sslmode_match (c # t) = Some x2" and "(m, rest) = x2"
  then have match: "sslmode_match (c # t) = Some (m, rest)" by simp
  have shorter: "length rest \<le> length r"
    if "(case r of [] \<Rightarrow> Some (([c], []), [])
         | a # r' \<Rightarrow> if a = CHR ''&'' then Some (([c], ''&''), r')
                    else Some (([c], []), r)) = Some (m, rest)"
    for r :: string
    using that by (cases r) (auto split: if_splits)
  from match have "length rest \<le> length (dropWhile (\<lambda>x. x \<noteq> CHR ''&'') (drop 8 t))"
    by (intro shorter) (simp add: sslmode_match_def Let_def split: if_splits)
  also have "\<dots> \<le> length (drop 8 t)" by (rule length_dropWhile_le)
  also have "\<dots> \<le> length t" by simp
  finally show "(rest, c # t) \<in> measure length" by simp
next
  fix c :: char and t :: string
  show "(t, c # t) \<in> measure length" by simp
qed

definition build_database_url :: "(string \<rightharpoonup> string) \<Rightarrow> string" where
  "build_database_url environ =
     (let uri = environ_get environ ''DATABASE_URL'' '''';
          uri = (if uri = '''' then
                   (let user = environ_get environ ''PG_USER'' ''appuser'';
                        password = environ_get environ ''PG_PASSWORD'' ''changeme'';
                        host = environ_get environ ''PG_HOST'' ''hetero-pgcluster-primary'';
                        port = environ_get environ ''PG_PORT'' ''5432'';
                        dbname = environ_get environ ''PG_DBNAME'' ''appdb''
                    in ''postgresql://'' @ user @ '':'' @ password @ ''@'' @ host @ '':'' @ port
                         @ ''/'' @ dbname)
                 else uri);
          uri = re_sub_sslmode uri;
          sep = (if CHR ''?'' \<in> set uri then ''&'' else ''?'')
      in rstrip_chars ''?&'' uri @ sep @ ''sslmode=require'')"

subsection \<open>Connections and the session scope\<close>

text \<open>
  What a unit of work does to its connection is recorded as a trace of events: a call of
  \<^verbatim>\<open>psycopg2.connect\<close>, a \<^verbatim>\<open>time.sleep\<close> with its delay, and the calls of
  \<^verbatim>\<open>conn.commit\<close>, \<^verbatim>\<open>conn.rollback\<close> and \<^verbatim>\<open>conn.close\<close>.
\<close>

datatype event = Connect | Sleep nat | Commit | Rollback | Close

text \<open>
  The behaviour of the database server and of the driver during one unit of work is the
  environment of the model: the outcome of the \<open>k\<close>-th call of \<^verbatim>\<open>psycopg2.connect\<close>
  (a connection, here a number, or the exception raised), whether \<^verbatim>\<open>cur.execute\<close>,
  \<^verbatim>\<open>conn.commit\<close>, \<^verbatim>\<open>conn.rollback\<close> and \<^verbatim>\<open>conn.close\<close> raise, the value the
  sequence of the \<^verbatim>\<open>SERIAL\<close> column gives to an inserted row, the value of
  \<^verbatim>\<open>CURRENT_TIMESTAMP\<close>, and the answer to \<^verbatim>\<open>SELECT version()\<close>.
\<close>

record db_env =
  connect_result :: "nat \<Rightarrow> exn + nat"
  execute_result :: "exn option"
  commit_result :: "exn option"
  rollback_result :: "exn option"
  close_result :: "exn option"
  assigned_id :: int
  current_timestamp :: string
  server_version :: "string option"

text \<open>
  The loop \<^verbatim>\<open>for attempt in range(retries)\<close> of \<^verbatim>\<open>_connect_with_retry\<close>, as a recursion
  over the attempts still to make, with \<^verbatim>\<open>last_exc\<close> as it stands. A successful
  \<^verbatim>\<open>connect\<close> returns from the function; an \<^verbatim>\<open>OperationalError\<close> is kept in
  \<^verbatim>\<open>last_exc\<close> and, unless the attempt is the last one, followed by a sleep; any other
  exception is not caught and leaves the function. After the loop \<^verbatim>\<open>last_exc\<close> is
  raised. The \<^verbatim>\<open>print\<close> of the loop is not modelled.
\<close>

fun retry_loop ::
  "(nat \<Rightarrow> exn + 'c) \<Rightarrow> nat \<Rightarrow> nat \<Rightarrow> nat list \<Rightarrow> exn \<Rightarrow> (exn + 'c) \<times> event list" where
  "retry_loop connect retries delay [] last_exc = (Inl last_exc, [])"
| "retry_loop connect retries delay (attempt # rest) last_exc =
     (case connect attempt of
        Inr conn \<Rightarrow> (Inr conn, [Connect])
      | Inl exc \<Rightarrow>
          if is_OperationalError exc then
            (let (r, tr) = retry_loop connect retries delay rest exc
             in (r, Connect # (if int attempt < int retries - 1 then [Sleep delay] else []) @ tr))
          else (Inl exc, [Connect]))"

definition connect_with_retry ::
  "(nat \<Rightarrow> exn + 'c) \<Rightarrow> nat \<Rightarrow> nat \<Rightarrow> (exn + 'c) \<times> event list" where
  "connect_with_retry connect retries delay =
     retry_loop connect retries delay [0..<retries]
       (OperationalError ''Could not connect to database'')"

subsection \<open>The table\<close>

text \<open>
  A row of \<^verbatim>\<open>items\<close>, with the columns of the \<^verbatim>\<open>CREATE TABLE\<close> statement of
  \<^verbatim>\<open>init_db\<close>. The description is nullable. A timestamp is represented by the text
  \<^verbatim>\<open>str()\<close> gives for it, which is all the module ever does with one.
\<close>

record item =
  item_id :: int
  name :: string
  description :: "string option"
  created_at :: string

type_synonym store = "item list"

text \<open>
  The session scope \<^verbatim>\<open>get_db\<close>. The body of the \<^verbatim>\<open>with\<close> block is a function on the
  table: it returns a value and the table as its statements leave it, or raises. The
  result is the value or the exception that leaves the \<^verbatim>\<open>with\<close> statement, the table as
  stored afterwards (the body's table once the commit has succeeded, the table of before
  otherwise), and the trace. The three parts are the \<^verbatim>\<open>try\<close> block, the
  \<^verbatim>\<open>except Exception\<close> clause and the \<^verbatim>\<open>finally\<close> clause. The default arguments of
  \<^verbatim>\<open>_connect_with_retry\<close> are written out.
\<close>

definition get_db ::
  "db_env \<Rightarrow> (store \<Rightarrow> exn + 'a \<times> store) \<Rightarrow> store \<Rightarrow> (exn + 'a) \<times> store \<times> event list" where
  "get_db env body st =
     (case connect_with_retry (connect_result env) 5 3 of
        (Inl exc, tr) \<Rightarrow> (Inl exc, st, tr)
      | (Inr conn, tr) \<Rightarrow>
          (let (r, st1, tr1) =
                 (case body st of
                    Inl exc \<Rightarrow> (Inl exc, st, tr)
                  | Inr (v, st') \<Rightarrow>
                      (case commit_result env of
                         None \<Rightarrow> (Inr v, st', tr @ [Commit])
                       | Some exc \<Rightarrow> (Inl exc, st, tr @ [Commit])));
               (r2, tr2) =
                 (case r of
                    Inr v \<Rightarrow> (r, tr1)
                  | Inl exc \<Rightarrow>
                      if is_Exception exc then
                        (case rollback_result env of
                           None \<Rightarrow> (Inl exc, tr1 @ [Rollback])
                         | Some exc2 \<Rightarrow> (Inl exc2, tr1 @ [Rollback]))
                      else (r, tr1))
           in case close_result env of
                None \<Rightarrow> (r2, st1, tr2 @ [Close])
              | Some exc3 \<Rightarrow> (Inl exc3, st1, tr2 @ [Close])))"

text \<open>
  \<^verbatim>\<open>cur.execute(statement)\<close>: the statement runs on the table unless the call fails for
  a reason of its own (a lost connection, say).
\<close>

definition execute :: "db_env \<Rightarrow> (store \<Rightarrow> exn + 'a \<times> store) \<Rightarrow> store \<Rightarrow> exn + 'a \<times> store" where
  "execute env statement st =
     (case execute_result env of Some exc \<Rightarrow> Inl exc | None \<Rightarrow> statement st)"

text \<open>\<^verbatim>\<open>cur.fetchone()\<close> on the rows a statement returned.\<close>

definition fetchone :: "'a list \<Rightarrow> 'a option" where
  "fetchone rs = (case rs of [] \<Rightarrow> None | r # _ \<Rightarrow> Some r)"

text \<open>
  A text parameter of a statement is quoted by the driver before the statement is sent:
  \<^verbatim>\<open>psycopg2\<close> raises a \<^verbatim>\<open>ValueError\<close> for a string that holds the character NUL.
\<close>

definition nul_free :: "string \<Rightarrow> bool" where
  "nul_free s = (CHR 0x00 \<notin> set s)"

definition nul_error :: exn where
  "nul_error = ValueError ''A string literal cannot contain NUL (0x00) characters.''"

text \<open>
  The five statements of the module. \<^verbatim>\<open>INSERT\<close> takes the id from the sequence and the
  timestamp from the clock; the primary key refuses an id already in the table, and
  \<^verbatim>\<open>VARCHAR(255)\<close> refuses a name of more than 255 characters, in \<^verbatim>\<open>INSERT\<close> and
  \<^verbatim>\<open>UPDATE\<close> alike (a stripped name never ends with a space, so the server cannot
  shorten it instead). The messages of the server end with a line feed. Each statement
  gives the rows of its \<^verbatim>\<open>RETURNING\<close> clause (or its result set) and the table.
\<close>

definition sql_insert :: "db_env \<Rightarrow> string \<Rightarrow> string \<Rightarrow> store \<Rightarrow> exn + item list \<times> store" where
  "sql_insert env nm descr st =
     (if \<not> nul_free nm \<or> \<not> nul_free descr then Inl nul_error
      else if length nm > 255 then
        Inl (OtherException ''value too long for type character varying(255)\<newline>'')
      else if assigned_id env \<in> set (map item_id st) then
        Inl (OtherException
               (''duplicate key value violates unique constraint \"items_pkey\"\<newline>''
                @ ''DETAIL:  Key (id)=('' @ str_int (assigned_id env)
                @ '') already exists.\<newline>''))
      else
        (let row = \<lparr>item_id = assigned_id env, name = nm, description = Some descr,
                       created_at = current_timestamp env\<rparr>
         in Inr ([row], st @ [row])))"

text \<open>
  What \<^verbatim>\<open>UPDATE items SET name=..., description=... WHERE id=...\<close> does to the table:
  the two columns of every row with that id are overwritten.
\<close>

definition overwrite :: "int \<Rightarrow> string \<Rightarrow> string \<Rightarrow> store \<Rightarrow> store" where
  "overwrite i nm descr st =
     map (\<lambda>r. if item_id r = i then r\<lparr>name := nm, description := Some descr\<rparr> else r) st"

definition sql_update :: "string \<Rightarrow> string \<Rightarrow> int \<Rightarrow> store \<Rightarrow> exn + item list \<times> store" where
  "sql_update nm descr i st =
     (if \<not> nul_free nm \<or> \<not> nul_free descr then Inl nul_error
      else if length nm > 255 then
        Inl (OtherException ''value too long for type character varying(255)\<newline>'')
      else
        (let st' = overwrite i nm descr st
         in Inr (filter (\<lambda>r. item_id r = i) st', st')))"

definition sql_delete :: "int \<Rightarrow> store \<Rightarrow> exn + item list \<times> store" where
  "sql_delete i st =
     Inr (filter (\<lambda>r. item_id r = i) st, filter (\<lambda>r. item_id r \<noteq> i) st)"


definition sql_select_all :: "store \<Rightarrow> exn + item list \<times> store" where
  "sql_select_all st = Inr (rev (sort_key item_id st), st)"

subsection \<open>Decoded request bodies\<close>

text \<open>
  The value \<^verbatim>\<open>request.get_json(silent=True)\<close> returns: \<^verbatim>\<open>None\<close> when the body is
  missing or is not JSON (and for the JSON \<^verbatim>\<open>null\<close>), otherwise the decoded value. An
  object is the list of its items, with distinct keys. Numbers are integers; a number with
  a fraction decodes to a float and is outside the model.
\<close>

datatype json =
    JNull
  | JBool bool
  | JInt int
  | JStr string
  | JArr "json list"
  | JObj "(string \<times> json) list"

text \<open>\<^verbatim>\<open>not data\<close>: the values Python takes for false.\<close>

fun py_not :: "json \<Rightarrow> bool" where
  "py_not JNull = True"
| "py_not (JBool b) = (\<not> b)"
| "py_not (JInt i) = (i = 0)"
| "py_not (JStr s) = (s = [])"
| "py_not (JArr xs) = (xs = [])"
| "py_not (JObj kvs) = (kvs = [])"

text \<open>
  \<^verbatim>\<open>key in data\<close>: a key of a dict, an element of a list, a substring of a string; a
  number or a boolean is not iterable.
\<close>

fun py_in :: "string \<Rightarrow> json \<Rightarrow> exn + bool" where
  "py_in k (JObj kvs) = Inr (k \<in> set (map fst kvs))"
| "py_in k (JArr xs) = Inr (JStr k \<in> set xs)"
| "py_in k (JStr s) = Inr (is_substring k s)"
| "py_in k JNull = Inl (TypeError ''argument of type 'NoneType' is not iterable'')"
| "py_in k (JBool b) = Inl (TypeError ''argument of type 'bool' is not iterable'')"
| "py_in k (JInt i) = Inl (TypeError ''argument of type 'int' is not iterable'')"

text \<open>\<^verbatim>\<open>data[key]\<close> with a string key: only a dict can be indexed by one.\<close>

fun py_getitem :: "json \<Rightarrow> string \<Rightarrow> exn + json" where
  "py_getitem (JObj kvs) k = (case map_of kvs k of Some v \<Rightarrow> Inr v | None \<Rightarrow> Inl (KeyError k))"
| "py_getitem (JArr xs) k = Inl (TypeError ''list indices must be integers or slices, not str'')"
| "py_getitem (JStr s) k = Inl (TypeError (''string indices must be integers, not '' @ sq @ ''str'' @ sq))"
| "py_getitem JNull k = Inl (TypeError (sq @ ''NoneType'' @ sq @ '' object is not subscriptable''))"
| "py_getitem (JBool b) k = Inl (TypeError (sq @ ''bool'' @ sq @ '' object is not subscriptable''))"
| "py_getitem (JInt i) k = Inl (TypeError (sq @ ''int'' @ sq @ '' object is not subscriptable''))"

text \<open>\<^verbatim>\<open>data.get(key, default)\<close>: a method of dicts only.\<close>

fun py_get :: "json \<Rightarrow> string \<Rightarrow> json \<Rightarrow> exn + json" where
  "py_get (JObj kvs) k dflt = (case map_of kvs k of Some v \<Rightarrow> Inr v | None \<Rightarrow> Inr dflt)"
| "py_get (JArr xs) k dflt = Inl (AttributeError (sq @ ''list'' @ sq @ '' object has no attribute '' @ sq @ ''get'' @ sq))"
| "py_get (JStr s) k dflt = Inl (AttributeError (sq @ ''str'' @ sq @ '' object has no attribute '' @ sq @ ''get'' @ sq))"
| "py_get JNull k dflt = Inl (AttributeError (sq @ ''NoneType'' @ sq @ '' object has no attribute '' @ sq @ ''get'' @ sq))"
| "py_get (JBool b) k dflt = Inl (AttributeError (sq @ ''bool'' @ sq @ '' object has no attribute '' @ sq @ ''get'' @ sq))"
| "py_get (JInt i) k dflt = Inl (AttributeError (sq @ ''int'' @ sq @ '' object has no attribute '' @ sq @ ''get'' @ sq))"

text \<open>
  \<^verbatim>\<open>str(value)\<close> on a decoded value. The text Python prints for a list or a dict is
  the builtin \<^verbatim>\<open>repr\<close>, which is not part of the module: it is the parameter
  \<open>repr\<close>.
\<close>

fun py_str :: "(json \<Rightarrow> string) \<Rightarrow> json \<Rightarrow> string" where
  "py_str repr (JStr s) = s"
| "py_str repr JNull = ''None''"
| "py_str repr (JBool b) = (if b then ''True'' else ''False'')"
| "py_str repr (JInt i) = str_int i"
| "py_str repr (JArr xs) = repr (JArr xs)"
| "py_str repr (JObj kvs) = repr (JObj kvs)"

subsection \<open>Responses\<close>

text \<open>
  A view returns a JSON body with its status (\<^verbatim>\<open>jsonify(...), status\<close>) or a redirect
  to the listing page, \<^verbatim>\<open>redirect(url_for("index", msg=..., type=...))\<close>, kept as its two
  query parameters. An exception that leaves the view is \<open>Inl\<close>: Flask answers it
  with status 500.
\<close>

datatype response = Json nat json | Redirect string string

text \<open>
  The check mark \<^verbatim>\<open>U+2713\<close> of the success messages is not a character of the model: it
  is written as the three bytes of its UTF-8 encoding.
\<close>

definition check_mark :: string where
  "check_mark = [CHR 0xE2, CHR 0x9C, CHR 0x93]"

definition item_json :: "item \<Rightarrow> json" where
  "item_json row =
     JObj [(''id'', JInt (item_id row)), (''name'', JStr (name row)),
           (''description'', (case description row of None \<Rightarrow> JNull | Some d \<Rightarrow> JStr d)),
           (''created_at'', JStr (created_at row))]"

definition json_error :: "string \<Rightarrow> json" where
  "json_error msg = JObj [(''error'', JStr msg)]"

text \<open>\<^verbatim>\<open>row[0]\<close> on the result of \<^verbatim>\<open>fetchone\<close>, which is \<^verbatim>\<open>None\<close> when there is no row.\<close>

definition subscript_row :: "item option \<Rightarrow> exn + item" where
  "subscript_row row =
     (case row of
        None \<Rightarrow> Inl (TypeError (sq @ ''NoneType'' @ sq @ '' object is not subscriptable''))
      | Some r \<Rightarrow> Inr r)"

text \<open>\<^verbatim>\<open>request.form.get(key, default)\<close> and \<^verbatim>\<open>request.args.get(key, default)\<close>.\<close>

definition form_get :: "(string \<rightharpoonup> string) \<Rightarrow> string \<Rightarrow> string \<Rightarrow> string" where
  "form_get form key dflt = (case form key of None \<Rightarrow> dflt | Some v \<Rightarrow> v)"

subsection \<open>Browser routes that write\<close>

definition ui_create_item ::
  "db_env \<Rightarrow> (string \<rightharpoonup> string) \<Rightarrow> store \<Rightarrow> (exn + response) \<times> store" where
  "ui_create_item env form st =
     (let nm = strip (form_get form ''name'' '''');
          descr = strip (form_get form ''description'' '''')
      in if nm = '''' then (Inr (Redirect ''Item name is required.'' ''error''), st)
         else
           (case get_db env
                   (\<lambda>s. case execute env (sql_insert env nm descr) s of
                          Inl exc \<Rightarrow> Inl exc
                        | Inr (rows, s') \<Rightarrow>
                            (case subscript_row (fetchone rows) of
                               Inl exc \<Rightarrow> Inl exc
                             | Inr r \<Rightarrow> Inr (item_id r, s'))) st of
              (Inr new_id, st', tr) \<Rightarrow>
                (Inr (Redirect (''Item '' @ sq @ nm @ sq @ '' saved to PostgreSQL (id=''
                                  @ str_int new_id @ '') '' @ check_mark) ''success''), st')
            | (Inl exc, st', tr) \<Rightarrow>
                if is_Exception exc
                then (Inr (Redirect (''Error: '' @ str_exn exc) ''error''), st')
                else (Inl exc, st')))"

definition ui_edit_item ::
  "db_env \<Rightarrow> int \<Rightarrow> (string \<rightharpoonup> string) \<Rightarrow> store \<Rightarrow> (exn + response) \<times> store" where
  "ui_edit_item env i form st =
     (let nm = strip (form_get form ''name'' '''');
          descr = strip (form_get form ''description'' '''')
      in if nm = '''' then (Inr (Redirect ''Item name cannot be empty.'' ''error''), st)
         else
           (case get_db env
                   (\<lambda>s. case execute env (sql_update nm descr i) s of
                          Inl exc \<Rightarrow> Inl exc
                        | Inr (rows, s') \<Rightarrow> Inr (fetchone rows, s')) st of
              (Inr updated, st', tr) \<Rightarrow>
                (case updated of
                   Some r \<Rightarrow>
                     (Inr (Redirect (''Item '' @ str_int i @ '' updated '' @ check_mark)
                             ''success''), st')
                 | None \<Rightarrow>
                     (Inr (Redirect (''Item '' @ str_int i @ '' not found.'') ''error''), st'))
            | (Inl exc, st', tr) \<Rightarrow>
                if is_Exception exc
                then (Inr (Redirect (''Error: '' @ str_exn exc) ''error''), st')
                else (Inl exc, st')))"

definition ui_delete_item :: "db_env \<Rightarrow> int \<Rightarrow> store \<Rightarrow> (exn + response) \<times> store" where
  "ui_delete_item env i st =
     (case get_db env
             (\<lambda>s. case execute env (sql_delete i) s of
                    Inl exc \<Rightarrow> Inl exc
                  | Inr (rows, s') \<Rightarrow> Inr (fetchone rows, s')) st of
        (Inr deleted, st', tr) \<Rightarrow>
          (case deleted of
             Some r \<Rightarrow>
               (Inr (Redirect (''Item '' @ sq @ name r @ sq @ '' deleted '' @ check_mark)
                       ''success''), st')
           | None \<Rightarrow>
               (Inr (Redirect (''Item '' @ str_int i @ '' not found.'') ''error''), st'))
      | (Inl exc, st', tr) \<Rightarrow>
          if is_Exception exc
          then (Inr (Redirect (''Error: '' @ str_exn exc) ''error''), st')
          else (Inl exc, st'))"

subsection \<open>REST routes\<close>


definition create_item_api ::
  "(json \<Rightarrow> string) \<Rightarrow> db_env \<Rightarrow> json \<Rightarrow> store \<Rightarrow> (exn + response) \<times> store" where
  "create_item_api repr env data st =
     (if py_not data then (Inr (Json 400 (json_error ''Field 'name' is required'')), st)
      else case py_in ''name'' data of
        Inl exc \<Rightarrow> (Inl exc, st)
      | Inr has_name \<Rightarrow>
          if \<not> has_name then (Inr (Json 400 (json_error ''Field 'name' is required'')), st)
          else case py_getitem data ''name'' of
            Inl exc \<Rightarrow> (Inl exc, st)
          | Inr name_value \<Rightarrow>
              (case py_get data ''description'' (JStr '''') of
                 Inl exc \<Rightarrow> (Inl exc, st)
               | Inr description_value \<Rightarrow>
                   (let nm = strip (py_str repr name_value);
                        descr = strip (py_str repr description_value)
                    in if nm = ''''
                       then (Inr (Json 400 (json_error ''Field 'name' must not be blank'')), st)
                       else
                         (case get_db env
                                 (\<lambda>s. case execute env (sql_insert env nm descr) s of
                                        Inl exc \<Rightarrow> Inl exc
                                      | Inr (rows, s') \<Rightarrow> Inr (fetchone rows, s')) st of
                            (Inr row, st', tr) \<Rightarrow>
                              (case subscript_row row of
                                 Inr r \<Rightarrow>
                                   (Inr (Json 201
                                      (JObj [(''item'', item_json r),
                                             (''message'', JStr ''Item created successfully'')])),
                                    st')
                               | Inl exc \<Rightarrow> (Inr (Json 500 (json_error (str_exn exc))), st'))
                          | (Inl exc, st', tr) \<Rightarrow>
                              if is_Exception exc
                              then (Inr (Json 500 (json_error (str_exn exc))), st')
                              else (Inl exc, st')))))"

definition update_item_api ::
  "(json \<Rightarrow> string) \<Rightarrow> db_env \<Rightarrow> int \<Rightarrow> json \<Rightarrow> store \<Rightarrow> (exn + response) \<times> store" where
  "update_item_api repr env i data st =
     (if py_not data then (Inr (Json 400 (json_error ''JSON body required'')), st)
      else case py_get data ''name'' (JStr '''') of
        Inl exc \<Rightarrow> (Inl exc, st)
      | Inr name_value \<Rightarrow>
          (case py_get data ''description'' (JStr '''') of
             Inl exc \<Rightarrow> (Inl exc, st)
           | Inr description_value \<Rightarrow>
               (let nm = strip (py_str repr name_value);
                    descr = strip (py_str repr description_value)
                in if nm = ''''
                   then (Inr (Json 400 (json_error ''Field 'name' must not be blank'')), st)
                   else
                     (case get_db env
                             (\<lambda>s. case execute env (sql_update nm descr i) s of
                                    Inl exc \<Rightarrow> Inl exc
                                  | Inr (rows, s') \<Rightarrow> Inr (fetchone rows, s')) st of
                        (Inr row, st', tr) \<Rightarrow>
                          (case row of
                             Some r \<Rightarrow>
                               (Inr (Json 200
                                  (JObj [(''item'', item_json r),
                                         (''message'', JStr ''Item updated successfully'')])),
                                st')
                           | None \<Rightarrow>
                               (Inr (Json 404
                                  (json_error (''Item '' @ str_int i @ '' not found''))), st'))
                      | (Inl exc, st', tr) \<Rightarrow>
                          if is_Exception exc
                          then (Inr (Json 500 (json_error (str_exn exc))), st')
                          else (Inl exc, st')))))"

definition delete_item_api :: "db_env \<Rightarrow> int \<Rightarrow> store \<Rightarrow> (exn + response) \<times> store" where
  "delete_item_api env i st =
     (case get_db env
             (\<lambda>s. case execute env (sql_delete i) s of
                    Inl exc \<Rightarrow> Inl exc
                  | Inr (rows, s') \<Rightarrow> Inr (fetchone rows, s')) st of
        (Inr deleted, st', tr) \<Rightarrow>
          (case deleted of
             Some r \<Rightarrow>
               (Inr (Json 200 (JObj [(''message'', JStr (''Item '' @ str_int i @ '' deleted''))])),
                st')
           | None \<Rightarrow> (Inr (Json 404 (json_error (''Item '' @ str_int i @ '' not found''))), st'))
      | (Inl exc, st', tr) \<Rightarrow>
          if is_Exception exc
          then (Inr (Json 500 (json_error (str_exn exc))), st')
          else (Inl exc, st'))"

subsection \<open>The listing page\<close>

text \<open>
  \<^verbatim>\<open>html.escape(s)\<close> with its default \<^verbatim>\<open>quote=True\<close>: the ampersand first, then the
  angle brackets and the two quotes.
\<close>

definition html_escape :: "string \<Rightarrow> string" where
  "html_escape s =
     (let s = replace_char CHR ''&'' ''&amp;'' s;
          s = replace_char CHR ''<'' ''&lt;'' s;
          s = replace_char CHR ''>'' ''&gt;'' s;
          s = replace_char CHR 0x22 ''&quot;'' s;
          s = replace_char CHR 0x27 ''&#x27;'' s
      in s)"

definition esc :: "string option \<Rightarrow> string" where
  "esc v = (case v of None \<Rightarrow> '''' | Some s \<Rightarrow> html_escape s)"

text \<open>
  The two strings for the \<^verbatim>\<open>onclick\<close> attribute, as the source computes them: the
  single quote gets a backslash, and the double quote is replaced by itself.
\<close>

definition js_quote :: "string \<Rightarrow> string" where
  "js_quote s = replace_char CHR 0x22 [CHR 0x22] (replace_char CHR 0x27 (CHR 0x5C # sq) s)"

text \<open>The two f-strings of the loop of \<^verbatim>\<open>build_table\<close>, with their line breaks.\<close>

definition view_row :: "string \<Rightarrow> string \<Rightarrow> string \<Rightarrow> string \<Rightarrow> string \<Rightarrow> string \<Rightarrow> string" where
  "view_row rid ename edesc ets js_name js_desc = concat
     [''\<newline>      <tr id=\"view-'', rid,
      ''\">\<newline>        <td style=\"color:#555;\">'', rid,
      ''</td>\<newline>        <td><strong>'', ename,
      ''</strong></td>\<newline>        <td style=\"color:#aaa;\">'', edesc,
      ''</td>\<newline>        <td class=\"ts\">'', ets,
      ''</td>\<newline>        <td>\<newline>          <div class=\"action-btns\">\<newline>            <button type=\"button\" class=\"btn btn-warning\"\<newline>              onclick=\"showEditRow('',
      rid, '', '', sq, js_name, sq, '', '', sq, js_desc, sq,
      '')\">&#9998; Edit</button>\<newline>            <form method=\"POST\" action=\"/ui/items/'',
      rid,
      ''/delete\" style=\"display:inline;\">\<newline>              <button type=\"submit\" class=\"btn btn-danger\"\<newline>                onclick=\"return confirm('',
      sq, ''Delete item '', rid, ''?'', sq,
      '')\">&#128465;</button>\<newline>            </form>\<newline>          </div>\<newline>        </td>\<newline>      </tr>'']"

definition edit_row :: "string \<Rightarrow> string \<Rightarrow> string \<Rightarrow> string \<Rightarrow> string" where
  "edit_row rid ename edesc ets = concat
     [''\<newline>      <tr id=\"edit-'', rid,
      ''\" class=\"edit-row\" style=\"display:none;\">\<newline>        <td style=\"color:#555;\">'',
      rid,
      ''</td>\<newline>        <td colspan=\"2\">\<newline>          <form method=\"POST\" action=\"/ui/items/'',
      rid, ''/edit\" id=\"edit-form-'', rid,
      ''\">\<newline>            <div class=\"form-row\">\<newline>              <div class=\"form-group\">\<newline>                <input type=\"text\" id=\"edit-name-'',
      rid, ''\" name=\"name\"\<newline>                  value=\"'', ename,
      ''\" required maxlength=\"255\" placeholder=\"Item name\">\<newline>              </div>\<newline>              <div class=\"form-group\" style=\"flex:2;\">\<newline>                <input type=\"text\" id=\"edit-desc-'',
      rid, ''\" name=\"description\"\<newline>                  value=\"'', edesc,
      ''\" maxlength=\"1000\" placeholder=\"Description\">\<newline>              </div>\<newline>            </div>\<newline>          </form>\<newline>        </td>\<newline>        <td class=\"ts\">'',
      ets,
      ''</td>\<newline>        <td>\<newline>          <div class=\"action-btns\">\<newline>            <button type=\"submit\" form=\"edit-form-'',
      rid,
      ''\" class=\"btn btn-save\">&#10003; Save</button>\<newline>            <button type=\"button\" class=\"btn btn-cancel\" onclick=\"cancelEdit('',
      rid,
      '')\">&#10005;</button>\<newline>          </div>\<newline>        </td>\<newline>      </tr>'']"

text \<open>The body of the loop: the two parts one row appends to \<^verbatim>\<open>html_parts\<close>.\<close>

definition row_parts :: "item \<Rightarrow> string list" where
  "row_parts row =
     (let rid = str_int (item_id row);
          rname = name row;
          rdesc = (case description row of None \<Rightarrow> '''' | Some d \<Rightarrow> d);
          rts = created_at row;
          ename = esc (Some rname);
          edesc = esc (Some rdesc);
          ets = esc (Some (take 19 rts));
          js_name = js_quote rname;
          js_desc = js_quote rdesc
      in [view_row rid ename edesc ets js_name js_desc, edit_row rid ename edesc ets])"

definition build_table :: "item list \<Rightarrow> string" where
  "build_table rows =
     (if rows = [] then ''<div class=\"empty\">No items yet. Add your first item above!</div>''
      else concat
        ([''<table>\<newline>      <tr>\<newline>        <th style=\"width:50px\">#</th>\<newline>        <th>Name</th>\<newline>        <th>Description</th>\<newline>        <th style=\"width:160px\">Created At</th>\<newline>        <th style=\"width:160px\">Actions</th>\<newline>      </tr>'']
         @ concat (map row_parts rows) @ [''</table>'']))"

text \<open>
  \<^verbatim>\<open>get_items\<close> and \<^verbatim>\<open>get_db_info\<close>: each runs one query in a session scope of its own
  and turns an \<^verbatim>\<open>Exception\<close> into its second result. Both only read, so the table is
  not returned.
\<close>

definition get_items :: "db_env \<Rightarrow> store \<Rightarrow> exn + item list \<times> string option" where
  "get_items env st =
     (case get_db env (execute env sql_select_all) st of
        (Inr rows, st', tr) \<Rightarrow> Inr (rows, None)
      | (Inl exc, st', tr) \<Rightarrow>
          if is_Exception exc then Inr ([], Some (str_exn exc)) else Inl exc)"

definition get_db_info :: "db_env \<Rightarrow> store \<Rightarrow> exn + bool \<times> string" where
  "get_db_info env st =
     (case get_db env (execute env (\<lambda>s. Inr (server_version env, s))) st of
        (Inr version, st', tr) \<Rightarrow>
          Inr (True,
               (case version of
                  None \<Rightarrow> ''Unknown''
                | Some v \<Rightarrow> if v = '''' then ''Unknown'' else takeWhile (\<lambda>c. c \<noteq> CHR '','') v))
      | (Inl exc, st', tr) \<Rightarrow>
          if is_Exception exc then Inr (False, take 80 (str_exn exc)) else Inl exc)"

text \<open>
  The view \<^verbatim>\<open>index\<close>. Its result is the page, given by the eight arguments of
  \<^verbatim>\<open>HTML_TEMPLATE.format\<close>: the template itself is constant markup in which each
  argument is inserted as it is. The two queries run in their own session scopes, with
  their own environments.
\<close>

record page =
  app_node :: string
  db_status :: string
  db_color :: string
  db_version :: string
  flash :: string
  table :: string
  count :: nat
  plural :: string

definition flash_type_of :: "(string \<rightharpoonup> string) \<Rightarrow> string" where
  "flash_type_of args =
     (let flash_type = form_get args ''type'' ''success''
      in if flash_type \<notin> {''success'', ''error''} then ''success'' else flash_type)"

definition index ::
  "(string \<rightharpoonup> string) \<Rightarrow> (string \<rightharpoonup> string) \<Rightarrow> db_env \<Rightarrow> db_env \<Rightarrow> store \<Rightarrow> exn + page" where
  "index environ args env_info env_items st =
     (let flash_msg = esc (Some (form_get args ''msg'' ''''));
          flash_type = flash_type_of args;
          flash_html = (if flash_msg \<noteq> ''''
                        then ''<div class=\"flash '' @ flash_type @ ''\">'' @ flash_msg @ ''</div>''
                        else '''')
      in case get_db_info env_info st of
           Inl exc \<Rightarrow> Inl exc
         | Inr (db_ok, db_ver) \<Rightarrow>
             (case get_items env_items st of
                Inl exc \<Rightarrow> Inl exc
              | Inr (rows, err) \<Rightarrow>
                  (let flash_html =
                         (case err of
                            None \<Rightarrow> flash_html
                          | Some e \<Rightarrow>
                              if e = '''' then flash_html
                              else ''<div class=\"flash error\">DB Error: '' @ esc (Some e)
                                     @ ''</div>'')
                   in Inr \<lparr>app_node = esc (Some (environ_get environ ''NODE_NAME'' ''unknown'')),
                            db_status = (if db_ok then ''Connected '' @ check_mark
                                         else ''Disconnected '' @ [CHR 0xE2, CHR 0x9C, CHR 0x97]),
                            db_color = (if db_ok then ''#4caf50'' else ''#f44336''),
                            db_version = (if db_ok then esc (Some (take 80 db_ver)) else ''''),
                            flash = flash_html,
                            table = build_table rows,
                            count = length rows,
                            plural = (if length rows \<noteq> 1 then ''s'' else '''')\<rparr>)))"

subsection \<open>Environments\<close>

text \<open>
  The store is available to a unit of work when a connection is obtained within the five
  attempts and no call on it raises.
\<close>

definition store_available :: "db_env \<Rightarrow> bool" where
  "store_available env =
     ((case fst (connect_with_retry (connect_result env) 5 3) of
         Inr conn \<Rightarrow> True
       | Inl exc \<Rightarrow> False)
      \<and> execute_result env = None \<and> commit_result env = None
      \<and> rollback_result env = None \<and> close_result env = None)"

text \<open>
  An environment for the examples: the first \<^verbatim>\<open>connect\<close> succeeds, every call
  succeeds, the sequence gives the id \<open>new_id\<close>.
\<close>

definition env_up :: "int \<Rightarrow> db_env" where
  "env_up new_id =
     \<lparr>connect_result = (\<lambda>k. Inr 1), execute_result = None, commit_result = None,
      rollback_result = None, close_result = None, assigned_id = new_id,
      current_timestamp = ''2024-05-06 07:08:09.123456'',
      server_version = Some ''PostgreSQL 15.2 on x86_64-pc-linux-gnu, compiled by gcc''\<rparr>"

text \<open>
  The frame of an update of the id \<open>i\<close>: the table keeps its length, every row keeps
  its id and its creation time, and a row with another id is left as it was.
\<close>

definition frame_of_update :: "int \<Rightarrow> store \<Rightarrow> store \<Rightarrow> bool" where
  "frame_of_update i st st' =
     (length st' = length st
      \<and> (\<forall>k<length st. item_id (st' ! k) = item_id (st ! k)
            \<and> created_at (st' ! k) = created_at (st ! k)
            \<and> (item_id (st ! k) \<noteq> i \<longrightarrow> st' ! k = st ! k)))"

section \<open>Properties\<close>

subsection \<open>The connection URI\<close>

text \<open>
  C2. The claim is that the URI returned by \<^verbatim>\<open>_build_database_url\<close> holds
  \<^verbatim>\<open>sslmode=require\<close> once and no other \<^verbatim>\<open>sslmode\<close> parameter, however many the input
  had. The substitution consumes the \<^verbatim>\<open>&\<close> after a removed parameter, so a second
  \<^verbatim>\<open>sslmode\<close> parameter that follows at once has no separator left to match and stays:
  from \<^verbatim>\<open>DATABASE_URL\<close> with \<^verbatim>\<open>?sslmode=disable&sslmode=disable\<close> the result carries
  both \<^verbatim>\<open>sslmode=disable\<close> and \<^verbatim>\<open>sslmode=require\<close>.
\<close>

theorem build_database_url_keeps_second_sslmode:
  "build_database_url
     [''DATABASE_URL'' \<mapsto> ''postgresql://u:p@h:5432/db?sslmode=disable&sslmode=disable'']
   = ''postgresql://u:p@h:5432/db?sslmode=disable&sslmode=require''"
  by (simp add: build_database_url_def environ_get_def sslmode_match_def
      remove_sslmode_param_def rstrip_chars_def)

subsection \<open>Opening a connection\<close>

lemma upt_5: "[0..<5] = [0, 1, 2, 3, 4]"
  by (simp add: upt_rec)

lemma retry_loop_events:
  "retry_loop connect retries delay attempts last_exc = (r, tr) \<Longrightarrow>
   set tr \<subseteq> {Connect, Sleep delay}"
proof (induction attempts arbitrary: last_exc r tr)
  case Nil
  then show ?case by simp
next
  case (Cons attempt rest)
  show ?case
  proof (cases "connect attempt")
    case (Inr conn)
    with Cons.prems show ?thesis by auto
  next
    case (Inl exc)
    show ?thesis
    proof (cases "is_OperationalError exc")
      case False
      with Inl Cons.prems show ?thesis by auto
    next
      case True
      obtain r' tr' where rec: "retry_loop connect retries delay rest exc = (r', tr')"
        by (cases "retry_loop connect retries delay rest exc")
      from Cons.IH [OF rec] have "set tr' \<subseteq> {Connect, Sleep delay}" .
      with Inl True rec Cons.prems show ?thesis by (auto split: if_splits)
    qed
  qed
qed

lemma connect_with_retry_events:
  "connect_with_retry connect retries delay = (r, tr) \<Longrightarrow> set tr \<subseteq> {Connect, Sleep delay}"
  unfolding connect_with_retry_def by (rule retry_loop_events)

lemma connect_trace_shape:
  fixes connect :: "nat \<Rightarrow> exn + 'c"
  shows "\<exists>n. 1 \<le> n \<and> n \<le> 5 \<and>
           snd (connect_with_retry connect 5 3)
             = concat (replicate (n - 1) [Connect, Sleep 3]) @ [Connect]"
proof -
  have "snd (connect_with_retry connect 5 3) \<in>
          (\<lambda>n. concat (replicate (n - 1) [Connect, Sleep 3]) @ [Connect]) ` {1, 2, 3, 4, 5}"
    by (simp add: connect_with_retry_def upt_5 eval_nat_numeral split: sum.splits prod.splits)
  then obtain n :: nat where "n \<in> {1, 2, 3, 4, 5}"
    and "snd (connect_with_retry connect 5 3)
           = concat (replicate (n - 1) [Connect, Sleep 3]) @ [Connect]"
    by blast
  then show ?thesis by (intro exI [of _ n]) auto
qed

lemma connect_after_failures:
  fixes connect :: "nat \<Rightarrow> exn + 'c"
  assumes k: "k < 5"
    and failed: "\<forall>j<k. \<exists>e. connect j = Inl e \<and> is_OperationalError e"
    and last: "connect k = r" "r = Inr c \<or> k = 4"
  shows "connect_with_retry connect 5 3
           = (r, concat (replicate k [Connect, Sleep 3]) @ [Connect])"
proof -
  from k consider "k = 0" | "k = 1" | "k = 2" | "k = 3" | "k = 4" by linarith
  then show ?thesis
  proof cases
    case 1
    with last show ?thesis by (auto simp: connect_with_retry_def upt_5)
  next
    case 2
    with failed obtain e0 where "connect 0 = Inl e0" "is_OperationalError e0" by auto
    with 2 last show ?thesis by (auto simp: connect_with_retry_def upt_5)
  next
    case 3
    have "(0::nat) < 2" "(1::nat) < 2" by simp_all
    with 3 failed obtain e0 e1 where "connect 0 = Inl e0" "is_OperationalError e0"
      "connect 1 = Inl e1" "is_OperationalError e1" by metis
    with 3 last show ?thesis by (auto simp: connect_with_retry_def upt_5 eval_nat_numeral)
  next
    case 4
    have "(0::nat) < 3" "(1::nat) < 3" "(2::nat) < 3" by simp_all
    with 4 failed obtain e0 e1 e2 where "connect 0 = Inl e0" "is_OperationalError e0"
      "connect 1 = Inl e1" "is_OperationalError e1"
      "connect 2 = Inl e2" "is_OperationalError e2" by metis
    with 4 last show ?thesis by (auto simp: connect_with_retry_def upt_5 eval_nat_numeral)
  next
    case 5
    have "(0::nat) < 4" "(1::nat) < 4" "(2::nat) < 4" "(3::nat) < 4" by simp_all
    with 5 failed obtain e0 e1 e2 e3 where "connect 0 = Inl e0" "is_OperationalError e0"
      "connect 1 = Inl e1" "is_OperationalError e1"
      "connect 2 = Inl e2" "is_OperationalError e2"
      "connect 3 = Inl e3" "is_OperationalError e3" by metis
    with 5 last show ?thesis
      by (cases r; cases "is_OperationalError (projl r)")
         (auto simp: connect_with_retry_def upt_5 eval_nat_numeral)
  qed
qed

text \<open>
  C4. With its default arguments \<^verbatim>\<open>_connect_with_retry\<close> calls \<^verbatim>\<open>connect\<close> at least
  once and at most five times, sleeps 3 between two consecutive calls and never after
  the last one. When the first \<open>k\<close> calls fail with an \<^verbatim>\<open>OperationalError\<close> and the next
  one succeeds, that connection is returned after \<open>k\<close> sleeps. When all five calls
  fail, the exception of the fifth call is raised as it is, after four sleeps.
\<close>

theorem connect_with_retry_five_attempts:
  fixes connect :: "nat \<Rightarrow> exn + 'c"
  shows "(\<exists>n. 1 \<le> n \<and> n \<le> 5 \<and>
            snd (connect_with_retry connect 5 3)
              = concat (replicate (n - 1) [Connect, Sleep 3]) @ [Connect])
    \<and> (\<forall>k c. k < 5 \<and> (\<forall>j<k. \<exists>e. connect j = Inl e \<and> is_OperationalError e)
                \<and> connect k = Inr c \<longrightarrow>
           connect_with_retry connect 5 3
             = (Inr c, concat (replicate k [Connect, Sleep 3]) @ [Connect]))
    \<and> (\<forall>exc. (\<forall>j<4. \<exists>e. connect j = Inl e \<and> is_OperationalError e)
                \<and> connect 4 = Inl exc \<longrightarrow>
           connect_with_retry connect 5 3
             = (Inl exc, [Connect, Sleep 3, Connect, Sleep 3, Connect, Sleep 3,
                          Connect, Sleep 3, Connect]))"
proof (intro conjI allI impI)
  show "\<exists>n. 1 \<le> n \<and> n \<le> 5 \<and>
          snd (connect_with_retry connect 5 3)
            = concat (replicate (n - 1) [Connect, Sleep 3]) @ [Connect]"
    by (rule connect_trace_shape)
next
  fix k c
  assume "k < 5 \<and> (\<forall>j<k. \<exists>e. connect j = Inl e \<and> is_OperationalError e)
            \<and> connect k = Inr c"
  then show "connect_with_retry connect 5 3
               = (Inr c, concat (replicate k [Connect, Sleep 3]) @ [Connect])"
    by (intro connect_after_failures) auto
next
  fix exc
  assume "(\<forall>j<4. \<exists>e. connect j = Inl e \<and> is_OperationalError e) \<and> connect 4 = Inl exc"
  then have "connect_with_retry connect 5 3
               = (Inl exc, concat (replicate 4 [Connect, Sleep 3]) @ [Connect])"
    by (intro connect_after_failures) auto
  then show "connect_with_retry connect 5 3
               = (Inl exc, [Connect, Sleep 3, Connect, Sleep 3, Connect, Sleep 3,
                            Connect, Sleep 3, Connect])"
    by (simp add: eval_nat_numeral)
qed

theorem connect_with_retry_five_attempts_witness:
  "connect_with_retry
     (\<lambda>k::nat. if k < 2 then Inl (OperationalError ''refused'') else Inr (7::nat)) 5 3
     = (Inr 7, [Connect, Sleep 3, Connect, Sleep 3, Connect])
   \<and> connect_with_retry
       (\<lambda>k::nat. Inl (OperationalError (''refused '' @ str_nat k)) :: exn + nat) 5 3
     = (Inl (OperationalError ''refused 4''),
        [Connect, Sleep 3, Connect, Sleep 3, Connect, Sleep 3, Connect, Sleep 3, Connect])"
proof -
  let ?c1 = "\<lambda>k::nat. if k < 2 then Inl (OperationalError ''refused'') else Inr (7::nat)"
  let ?c2 = "\<lambda>k::nat. Inl (OperationalError (''refused '' @ str_nat k)) :: exn + nat"
  have h1: "(2::nat) < 5 \<and> (\<forall>j<2. \<exists>e. ?c1 j = Inl e \<and> is_OperationalError e)
              \<and> ?c1 2 = Inr 7"
    by simp
  have h2: "(\<forall>j<4. \<exists>e. ?c2 j = Inl e \<and> is_OperationalError e)
              \<and> ?c2 4 = Inl (OperationalError ''refused 4'')"
    by (simp add: str_nat.simps)
  from connect_with_retry_five_attempts [of ?c1] h1
  have "connect_with_retry ?c1 5 3
          = (Inr 7, concat (replicate 2 [Connect, Sleep 3]) @ [Connect])"
    by blast
  moreover from connect_with_retry_five_attempts [of ?c2] h2
  have "connect_with_retry ?c2 5 3
          = (Inl (OperationalError ''refused 4''),
             [Connect, Sleep 3, Connect, Sleep 3, Connect, Sleep 3, Connect, Sleep 3, Connect])"
    by blast
  ultimately show ?thesis by (simp add: eval_nat_numeral)
qed

text \<open>
  The claim has the function fail with a \<^verbatim>\<open>ConnectionError\<close> that carries the last
  error. After the loop the source has \<^verbatim>\<open>raise last_exc\<close>: what leaves the function is
  the \<^verbatim>\<open>psycopg2.OperationalError\<close> of the fifth attempt itself, which is not a
  \<^verbatim>\<open>ConnectionError\<close>.
\<close>

theorem connect_with_retry_raises_last_error_counterexample:
  "connect_with_retry (\<lambda>k::nat. Inl (OperationalError ''connection refused'') :: exn + nat) 5 3
     = (Inl (OperationalError ''connection refused''),
        [Connect, Sleep 3, Connect, Sleep 3, Connect, Sleep 3, Connect, Sleep 3, Connect])
   \<and> \<not> is_ConnectionError (OperationalError ''connection refused'')"
  by (simp add: connect_with_retry_def upt_5)

subsection \<open>The session scope\<close>

lemma get_db_returns:
  assumes "store_available env" and "body st = Inr (v, st')"
  shows "\<exists>tr. get_db env body st = (Inr v, st', tr)"
  using assms
  by (cases "connect_with_retry (connect_result env) 5 3")
     (auto simp: store_available_def get_db_def split: sum.splits)

lemma get_db_raises:
  assumes "store_available env" and "body st = Inl exc"
  shows "\<exists>tr. get_db env body st = (Inl exc, st, tr)"
  using assms
  by (cases "connect_with_retry (connect_result env) 5 3")
     (auto simp: store_available_def get_db_def split: sum.splits)


lemma get_db_frame:
  assumes "get_db env body st = (r, st', tr)"
  shows "st' = st \<or> (\<exists>v. body st = Inr (v, st'))"
  using assms
  by (cases "connect_with_retry (connect_result env) 5 3")
     (auto simp: get_db_def Let_def split: sum.splits option.splits prod.splits if_splits)

text \<open>
  C3, as the code has it. Once a connection is acquired, \<^verbatim>\<open>close\<close> is called exactly once
  on every path. When the body returns, \<^verbatim>\<open>commit\<close> is called, and the value and the
  body's table are the result when \<^verbatim>\<open>commit\<close> and \<^verbatim>\<open>close\<close> succeed. When the body or
  \<^verbatim>\<open>commit\<close> raises an \<^verbatim>\<open>Exception\<close>, \<^verbatim>\<open>rollback\<close> is called, and that same exception
  leaves the scope, with the table as before, provided \<^verbatim>\<open>rollback\<close> and \<^verbatim>\<open>close\<close> do
  not raise themselves; when \<^verbatim>\<open>rollback\<close> raises and \<^verbatim>\<open>close\<close> does not, the exception
  of \<^verbatim>\<open>rollback\<close> leaves the scope. When the body or \<^verbatim>\<open>commit\<close> raises an exception
  outside \<^verbatim>\<open>Exception\<close>, \<^verbatim>\<open>rollback\<close> is not called and, provided \<^verbatim>\<open>close\<close> does not
  raise, that exception leaves the scope. Whenever \<^verbatim>\<open>close\<close> raises, its exception is
  the one that leaves the scope.
\<close>

theorem get_db_session_scope:
  assumes acq: "connect_with_retry (connect_result env) 5 3 = (Inr conn, tr0)"
  shows "length (filter (\<lambda>e. e = Close) (snd (snd (get_db env body st)))) = 1
    \<and> (\<forall>v st'. body st = Inr (v, st') \<longrightarrow>
          Commit \<in> set (snd (snd (get_db env body st)))
          \<and> (commit_result env = None \<and> close_result env = None \<longrightarrow>
               get_db env body st = (Inr v, st', tr0 @ [Commit, Close])))
    \<and> (\<forall>exc. is_Exception exc
              \<and> (body st = Inl exc
                  \<or> (\<exists>v st'. body st = Inr (v, st') \<and> commit_result env = Some exc)) \<longrightarrow>
          Rollback \<in> set (snd (snd (get_db env body st)))
          \<and> (rollback_result env = None \<and> close_result env = None \<longrightarrow>
               fst (get_db env body st) = Inl exc \<and> fst (snd (get_db env body st)) = st))
    \<and> (\<forall>exc. \<not> is_Exception exc
              \<and> (body st = Inl exc
                  \<or> (\<exists>v st'. body st = Inr (v, st') \<and> commit_result env = Some exc)) \<longrightarrow>
          Rollback \<notin> set (snd (snd (get_db env body st)))
          \<and> (close_result env = None \<longrightarrow>
               fst (get_db env body st) = Inl exc \<and> fst (snd (get_db env body st)) = st))
    \<and> (\<forall>exc exc2. is_Exception exc
              \<and> (body st = Inl exc
                  \<or> (\<exists>v st'. body st = Inr (v, st') \<and> commit_result env = Some exc))
              \<and> rollback_result env = Some exc2 \<and> close_result env = None \<longrightarrow>
          fst (get_db env body st) = Inl exc2)
    \<and> (\<forall>exc3. close_result env = Some exc3 \<longrightarrow> fst (get_db env body st) = Inl exc3)"
proof -
  from acq have ev: "set tr0 \<subseteq> {Connect, Sleep 3}"
    by (rule connect_with_retry_events)
  then have nc: "filter (\<lambda>e. e = Close) tr0 = []"
    by (induction tr0) auto
  from ev have nr: "Rollback \<notin> set tr0"
    by auto
  have closed: "length (filter (\<lambda>e. e = Close) (snd (snd (get_db env body st)))) = 1"
    using nc by (simp add: get_db_def acq Let_def split: sum.splits option.splits prod.splits)
  have committed: "Commit \<in> set (snd (snd (get_db env body st)))
      \<and> (commit_result env = None \<and> close_result env = None \<longrightarrow>
           get_db env body st = (Inr v, st', tr0 @ [Commit, Close]))"
    if "body st = Inr (v, st')" for v st'
    using that by (simp add: get_db_def acq Let_def split: sum.splits option.splits prod.splits)
  have rolled_back: "Rollback \<in> set (snd (snd (get_db env body st)))
      \<and> (rollback_result env = None \<and> close_result env = None \<longrightarrow>
           fst (get_db env body st) = Inl exc \<and> fst (snd (get_db env body st)) = st)"
    if "is_Exception exc"
      and "body st = Inl exc
           \<or> (\<exists>v st'. body st = Inr (v, st') \<and> commit_result env = Some exc)"
    for exc
    using that
    by (auto simp add: get_db_def acq Let_def split: sum.splits option.splits prod.splits)
  have passed_on: "Rollback \<notin> set (snd (snd (get_db env body st)))
      \<and> (close_result env = None \<longrightarrow>
           fst (get_db env body st) = Inl exc \<and> fst (snd (get_db env body st)) = st)"
    if "\<not> is_Exception exc"
      and "body st = Inl exc
           \<or> (\<exists>v st'. body st = Inr (v, st') \<and> commit_result env = Some exc)"
    for exc
    using that nr
    by (auto simp add: get_db_def acq Let_def split: sum.splits option.splits prod.splits)
  have rollback_raised: "fst (get_db env body st) = Inl exc2"
    if "is_Exception exc"
      and "body st = Inl exc
           \<or> (\<exists>v st'. body st = Inr (v, st') \<and> commit_result env = Some exc)"
      and "rollback_result env = Some exc2" and "close_result env = None"
    for exc exc2
    using that
    by (auto simp add: get_db_def acq Let_def split: sum.splits option.splits prod.splits)
  have close_raised: "fst (get_db env body st) = Inl exc3"
    if "close_result env = Some exc3" for exc3
    using that
    by (simp add: get_db_def acq Let_def split: sum.splits option.splits prod.splits)
  from closed committed rolled_back passed_on rollback_raised close_raised
  show ?thesis by blast
qed

theorem get_db_session_scope_witness:
  "get_db (env_up 1) (\<lambda>s. Inr (True, s @ s)) [] = (Inr True, [], [Connect, Commit, Close])
   \<and> fst (get_db (env_up 1) (\<lambda>s. Inl (OtherException ''boom'') :: exn + bool \<times> store) [])
       = Inl (OtherException ''boom'')
   \<and> Rollback \<in> set (snd (snd
         (get_db (env_up 1) (\<lambda>s. Inl (OtherException ''boom'') :: exn + bool \<times> store) [])))
   \<and> fst (get_db ((env_up 1)\<lparr>commit_result := Some (OperationalError ''lost'')\<rparr>)
              (\<lambda>s. Inr (True, s)) [])
       = Inl (OperationalError ''lost'')"
proof -
  let ?ok = "\<lambda>s :: store. Inr (True, s @ s) :: exn + bool \<times> store"
  let ?boom = "\<lambda>s :: store. Inl (OtherException ''boom'') :: exn + bool \<times> store"
  let ?same = "\<lambda>s :: store. Inr (True, s) :: exn + bool \<times> store"
  let ?env' = "(env_up 1)\<lparr>commit_result := Some (OperationalError ''lost'')\<rparr>"
  have acq: "connect_with_retry (connect_result (env_up 1)) 5 3 = (Inr 1, [Connect])"
    by (simp add: env_up_def connect_with_retry_def upt_5)
  have acq': "connect_with_retry (connect_result ?env') 5 3 = (Inr 1, [Connect])"
    by (simp add: env_up_def connect_with_retry_def upt_5)
  have q1: "commit_result (env_up 1) = None \<and> close_result (env_up 1) = None"
    by (simp add: env_up_def)
  have q2: "rollback_result (env_up 1) = None \<and> close_result (env_up 1) = None"
    by (simp add: env_up_def)
  have q3: "rollback_result ?env' = None \<and> close_result ?env' = None"
    by (simp add: env_up_def)
  have ok: "?ok [] = Inr (True, [])"
    by simp
  from get_db_session_scope [OF acq, of ?ok "[]"]
  have "\<forall>v st'. ?ok [] = Inr (v, st') \<longrightarrow>
          Commit \<in> set (snd (snd (get_db (env_up 1) ?ok [])))
          \<and> (commit_result (env_up 1) = None \<and> close_result (env_up 1) = None \<longrightarrow>
               get_db (env_up 1) ?ok [] = (Inr v, st', [Connect] @ [Commit, Close]))"
    by (elim conjE)
  from this [rule_format, OF ok] q1
  have a: "get_db (env_up 1) ?ok [] = (Inr True, [], [Connect] @ [Commit, Close])"
    by (elim conjE impE) simp_all
  have boom: "is_Exception (OtherException ''boom'')
        \<and> (?boom [] = Inl (OtherException ''boom'')
            \<or> (\<exists>v st'. ?boom [] = Inr (v, st')
                  \<and> commit_result (env_up 1) = Some (OtherException ''boom'')))"
    by simp
  from get_db_session_scope [OF acq, of ?boom "[]"]
  have "\<forall>exc. is_Exception exc
              \<and> (?boom [] = Inl exc
                  \<or> (\<exists>v st'. ?boom [] = Inr (v, st') \<and> commit_result (env_up 1) = Some exc)) \<longrightarrow>
          Rollback \<in> set (snd (snd (get_db (env_up 1) ?boom [])))
          \<and> (rollback_result (env_up 1) = None \<and> close_result (env_up 1) = None \<longrightarrow>
               fst (get_db (env_up 1) ?boom []) = Inl exc \<and> fst (snd (get_db (env_up 1) ?boom [])) = [])"
    by (elim conjE)
  from this [rule_format, OF boom] q2
  have b: "Rollback \<in> set (snd (snd (get_db (env_up 1) ?boom [])))
           \<and> fst (get_db (env_up 1) ?boom []) = Inl (OtherException ''boom'')"
    by (elim conjE impE) simp_all
  have lost: "is_Exception (OperationalError ''lost'')
        \<and> (?same [] = Inl (OperationalError ''lost'')
            \<or> (\<exists>v st'. ?same [] = Inr (v, st')
                  \<and> commit_result ?env' = Some (OperationalError ''lost'')))"
    by (auto simp: env_up_def)
  from get_db_session_scope [OF acq', of ?same "[]"]
  have "\<forall>exc. is_Exception exc
              \<and> (?same [] = Inl exc
                  \<or> (\<exists>v st'. ?same [] = Inr (v, st') \<and> commit_result ?env' = Some exc)) \<longrightarrow>
          Rollback \<in> set (snd (snd (get_db ?env' ?same [])))
          \<and> (rollback_result ?env' = None \<and> close_result ?env' = None \<longrightarrow>
               fst (get_db ?env' ?same []) = Inl exc \<and> fst (snd (get_db ?env' ?same [])) = [])"
    by (elim conjE)
  from this [rule_format, OF lost] q3
  have c: "fst (get_db ?env' ?same []) = Inl (OperationalError ''lost'')"
    by (elim conjE impE) simp_all
  from a b c show ?thesis by simp
qed

text \<open>
  The claim as it is written fails in two ways. A \<^verbatim>\<open>KeyboardInterrupt\<close> raised in the
  body is not an \<^verbatim>\<open>Exception\<close>: the connection is closed without a rollback. And when
  \<^verbatim>\<open>rollback\<close> raises, its exception leaves the scope in place of the original one.
\<close>

theorem get_db_rollback_counterexample:
  "get_db (env_up 1) (\<lambda>s. Inl (NonException ''KeyboardInterrupt'') :: exn + bool \<times> store) []
     = (Inl (NonException ''KeyboardInterrupt''), [], [Connect, Close])
   \<and> get_db ((env_up 1)\<lparr>rollback_result := Some (OtherException ''connection already closed'')\<rparr>)
         (\<lambda>s. Inl (OperationalError ''server closed the connection'') :: exn + bool \<times> store) []
     = (Inl (OtherException ''connection already closed''), [], [Connect, Rollback, Close])"
  by (simp add: get_db_def env_up_def connect_with_retry_def upt_5)

subsection \<open>An available store\<close>

lemma env_up_available: "store_available (env_up n)"
  by (simp add: store_available_def env_up_def connect_with_retry_def upt_5)

lemma execute_available: "store_available env \<Longrightarrow> execute env statement st = statement st"
  by (simp add: store_available_def execute_def)

lemma get_db_available:
  assumes "store_available env"
  shows "get_db env body st =
    (case body st of
       Inl exc \<Rightarrow>
         (Inl exc, st, snd (connect_with_retry (connect_result env) 5 3)
                        @ (if is_Exception exc then [Rollback] else []) @ [Close])
     | Inr (v, st') \<Rightarrow>
         (Inr v, st', snd (connect_with_retry (connect_result env) 5 3) @ [Commit, Close]))"
  using assms
  by (cases "connect_with_retry (connect_result env) 5 3")
     (auto simp: store_available_def get_db_def split: sum.splits)

subsection \<open>The listing page\<close>

text \<open>
  C1. The claim is that every stored text is HTML-escaped before it is put into the page,
  the name and the description in the \<^verbatim>\<open>onclick\<close> attribute included. The cells and the
  input values get \<^verbatim>\<open>_esc\<close> of the text, but the two arguments of \<^verbatim>\<open>showEditRow\<close> are
  \<^verbatim>\<open>js_name\<close> and \<^verbatim>\<open>js_desc\<close>, in which only the single quote gets a backslash: for the
  name \<^verbatim>\<open>"><script>\<close> the row is built with the escaped text for the cell and with the
  name as it is, double quote and angle brackets included, for the attribute.
\<close>

theorem build_table_onclick_not_escaped:
  "js_quote ''\"><script>'' = ''\"><script>''
   \<and> row_parts \<lparr>item_id = 1, name = ''\"><script>'', description = Some ''d'',
                  created_at = ''2024-05-06 07:08:09''\<rparr>
     = [view_row ''1'' ''&quot;&gt;&lt;script&gt;'' ''d'' ''2024-05-06 07:08:09''
          ''\"><script>'' ''d'',
        edit_row ''1'' ''&quot;&gt;&lt;script&gt;'' ''d'' ''2024-05-06 07:08:09'']"
  by (simp add: row_parts_def Let_def js_quote_def replace_char_def sq_def esc_def
      html_escape_def str_int_def str_nat.simps)

text \<open>
  C9. The severity class of the flash message is \<^verbatim>\<open>success\<close> or \<^verbatim>\<open>error\<close>: any other
  value of the query parameter \<^verbatim>\<open>type\<close> is replaced by \<^verbatim>\<open>success\<close>. The flash
  markup of a rendered page is empty, or a \<^verbatim>\<open>div\<close> whose class is one of the two values
  and whose content is the escaped message or the escaped database error.
\<close>

theorem flash_severity:
  "flash_type_of args \<in> {''success'', ''error''}
   \<and> (form_get args ''type'' ''success'' \<notin> {''success'', ''error''} \<longrightarrow>
        flash_type_of args = ''success'')
   \<and> (index environ args env_info env_items st = Inr pg \<longrightarrow>
        flash pg = ''''
        \<or> (\<exists>sev t. (sev = ''success'' \<or> sev = ''error'')
              \<and> flash pg = ''<div class=\"flash '' @ sev @ ''\">'' @ t @ ''</div>''
              \<and> (t = html_escape (form_get args ''msg'' '''')
                   \<or> (\<exists>e. t = ''DB Error: '' @ html_escape e))))"
proof (intro conjI impI)
  show ft: "flash_type_of args \<in> {''success'', ''error''}"
    by (auto simp: flash_type_of_def Let_def)
  show "flash_type_of args = ''success''"
    if "form_get args ''type'' ''success'' \<notin> {''success'', ''error''}"
    using that by (simp add: flash_type_of_def Let_def)
  show "flash pg = ''''
        \<or> (\<exists>sev t. (sev = ''success'' \<or> sev = ''error'')
              \<and> flash pg = ''<div class=\"flash '' @ sev @ ''\">'' @ t @ ''</div>''
              \<and> (t = html_escape (form_get args ''msg'' '''')
                   \<or> (\<exists>e. t = ''DB Error: '' @ html_escape e)))"
    (is "?empty \<or> ?div")
    if ix: "index environ args env_info env_items st = Inr pg"
  proof -
    define msg where "msg = html_escape (form_get args ''msg'' '''')"
    define plain where "plain = (if msg \<noteq> ''''
        then ''<div class=\"flash '' @ flash_type_of args @ ''\">'' @ msg @ ''</div>'' else '''')"
    have plain_ok: "plain = '''' \<or> (\<exists>sev t. (sev = ''success'' \<or> sev = ''error'')
              \<and> plain = ''<div class=\"flash '' @ sev @ ''\">'' @ t @ ''</div>''
              \<and> (t = html_escape (form_get args ''msg'' '''')
                   \<or> (\<exists>e. t = ''DB Error: '' @ html_escape e)))"
    proof (cases "msg = ''''")
      case True
      then show ?thesis by (simp add: plain_def)
    next
      case False
      then have "plain = ''<div class=\"flash '' @ flash_type_of args @ ''\">'' @ msg @ ''</div>''"
        by (simp add: plain_def)
      with ft show ?thesis unfolding msg_def by blast
    qed
    from ix obtain info where info: "get_db_info env_info st = Inr info"
      by (cases "get_db_info env_info st") (simp_all add: index_def Let_def)
    from ix info obtain rows err where items: "get_items env_items st = Inr (rows, err)"
      by (cases "get_items env_items st"; cases info)
         (auto simp: index_def Let_def)
    from ix info items have
      fl: "flash pg = (case err of None \<Rightarrow> plain
             | Some e \<Rightarrow> if e = '''' then plain
                 else ''<div class=\"flash error\">DB Error: '' @ html_escape e @ ''</div>'')"
      unfolding index_def Let_def esc_def plain_def msg_def
      by (cases info) (auto split: option.splits)
    show ?thesis
    proof (cases err)
      case None
      with fl plain_ok show ?thesis by simp
    next
      case (Some e)
      show ?thesis
      proof (cases "e = ''''")
        case True
        with Some fl plain_ok show ?thesis by simp
      next
        case False
        with Some fl have "flash pg = ''<div class=\"flash '' @ ''error'' @ ''\">''
            @ (''DB Error: '' @ html_escape e) @ ''</div>''"
          by simp
        then show ?thesis by blast
      qed
    qed
  qed
qed


theorem flash_severity_witness:
  "flash_type_of [''msg'' \<mapsto> ''<b>'', ''type'' \<mapsto> ''warning''] = ''success''
   \<and> index Map.empty [''msg'' \<mapsto> ''<b>'', ''type'' \<mapsto> ''warning''] (env_up 1) (env_up 1) []
       = Inr \<lparr>app_node = ''unknown'', db_status = ''Connected '' @ check_mark,
               db_color = ''#4caf50'', db_version = ''PostgreSQL 15.2 on x86_64-pc-linux-gnu'',
               flash = ''<div class=\"flash success\">&lt;b&gt;</div>'',
               table = ''<div class=\"empty\">No items yet. Add your first item above!</div>'',
               count = 0, plural = ''s''\<rparr>
   \<and> (''<div class=\"flash success\">&lt;b&gt;</div>'' = []
        \<or> (\<exists>sev t. (sev = ''success'' \<or> sev = ''error'')
              \<and> ''<div class=\"flash success\">&lt;b&gt;</div>''
                  = ''<div class=\"flash '' @ sev @ ''\">'' @ t @ ''</div>''
              \<and> (t = html_escape (form_get [''msg'' \<mapsto> ''<b>'', ''type'' \<mapsto> ''warning'']
                                       ''msg'' [])
                   \<or> (\<exists>e. t = ''DB Error: '' @ html_escape e))))"
proof -
  let ?args = "[''msg'' \<mapsto> ''<b>'', ''type'' \<mapsto> ''warning'']"
  let ?pg = "\<lparr>app_node = ''unknown'', db_status = ''Connected '' @ check_mark,
               db_color = ''#4caf50'', db_version = ''PostgreSQL 15.2 on x86_64-pc-linux-gnu'',
               flash = ''<div class=\"flash success\">&lt;b&gt;</div>'',
               table = ''<div class=\"empty\">No items yet. Add your first item above!</div>'',
               count = 0, plural = ''s''\<rparr>"
  have h: "form_get ?args ''type'' ''success'' \<notin> {''success'', ''error''}"
    by (simp add: form_get_def)
  have info: "get_db_info (env_up 1) [] = Inr (True, ''PostgreSQL 15.2 on x86_64-pc-linux-gnu'')"
    by (simp add: get_db_info_def get_db_available execute_available env_up_available)
       (simp add: env_up_def)
  have items: "get_items (env_up 1) [] = Inr ([], None)"
    by (simp add: get_items_def get_db_available execute_available env_up_available
        sql_select_all_def)
  have ft: "flash_type_of ?args = ''success''"
    using flash_severity [of ?args, THEN conjunct2, THEN conjunct1] h by (rule mp)
  have ix: "index Map.empty ?args (env_up 1) (env_up 1) [] = Inr ?pg"
    by (simp add: index_def info items ft Let_def esc_def html_escape_def replace_char_def
        form_get_def environ_get_def build_table_def)
  from flash_severity [of ?args Map.empty "env_up 1" "env_up 1" "[]" ?pg,
      THEN conjunct2, THEN conjunct2] ix
  have "flash ?pg = []
        \<or> (\<exists>sev t. (sev = ''success'' \<or> sev = ''error'')
              \<and> flash ?pg = ''<div class=\"flash '' @ sev @ ''\">'' @ t @ ''</div>''
              \<and> (t = html_escape (form_get ?args ''msg'' [])
                   \<or> (\<exists>e. t = ''DB Error: '' @ html_escape e)))"
    by (rule mp)
  then have "''<div class=\"flash success\">&lt;b&gt;</div>'' = []
        \<or> (\<exists>sev t. (sev = ''success'' \<or> sev = ''error'')
              \<and> ''<div class=\"flash success\">&lt;b&gt;</div>''
                  = ''<div class=\"flash '' @ sev @ ''\">'' @ t @ ''</div>''
              \<and> (t = html_escape (form_get ?args ''msg'' [])
                   \<or> (\<exists>e. t = ''DB Error: '' @ html_escape e)))"
    by (simp only: page.simps)
  with ft ix show ?thesis by (intro conjI)
qed


subsection \<open>Updating\<close>

lemma execute_Inr: "execute env statement st = Inr x \<Longrightarrow> statement st = Inr x"
  by (auto simp: execute_def split: option.splits)

lemma sql_update_Inr:
  "sql_update nm descr i st = Inr (rows, st') \<Longrightarrow>
   st' = overwrite i nm descr st \<and> rows = filter (\<lambda>r. item_id r = i) st'"
  by (auto simp: sql_update_def overwrite_def Let_def split: if_splits)

lemma update_body_Inr:
  assumes "(case execute env (sql_update nm descr i) st of
              Inl exc \<Rightarrow> Inl exc
            | Inr (rows, s') \<Rightarrow> Inr (fetchone rows, s')) = Inr (v, st')"
  shows "st' = overwrite i nm descr st"
proof (cases "execute env (sql_update nm descr i) st")
  case (Inl exc)
  with assms show ?thesis by simp
next
  case (Inr x)
  obtain rows s' where x: "x = (rows, s')" by (cases x)
  from Inr x have "sql_update nm descr i st = Inr (rows, s')" by (auto dest: execute_Inr)
  then have "s' = overwrite i nm descr st" by (auto dest: sql_update_Inr)
  with assms Inr x show ?thesis by simp
qed

lemma update_item_api_store:
  "snd (update_item_api repr env i data st) = st
   \<or> (\<exists>nm descr. snd (update_item_api repr env i data st) = overwrite i nm descr st)"
proof -
  have db: "st' = st \<or> st' = overwrite i nm descr st"
    if "get_db env (\<lambda>s. case execute env (sql_update nm descr i) s of
                          Inl exc \<Rightarrow> Inl exc
                        | Inr (rows, s') \<Rightarrow> Inr (fetchone rows, s')) st = (r, st', tr)"
    for nm descr r st' tr
    using get_db_frame [OF that] by (auto dest: update_body_Inr)
  show ?thesis
    unfolding update_item_api_def Let_def
    by (auto split: sum.splits prod.splits option.splits if_splits dest: db)
qed


lemma frame_of_update_refl: "frame_of_update i st st"
  by (simp add: frame_of_update_def)

lemma frame_of_update_overwrite: "frame_of_update i st (overwrite i nm descr st)"
  by (simp add: frame_of_update_def overwrite_def)

lemma overwrite_absent: "i \<notin> set (map item_id st) \<Longrightarrow> overwrite i nm descr st = st"
  by (induction st) (auto simp: overwrite_def)

lemma filter_overwrite:
  "filter (\<lambda>r. item_id r = i) (overwrite i nm descr st)
     = map (\<lambda>r. r\<lparr>name := nm, description := Some descr\<rparr>) (filter (\<lambda>r. item_id r = i) st)"
  by (induction st) (auto simp: overwrite_def)

lemma filter_absent: "i \<notin> set (map item_id st) \<Longrightarrow> filter (\<lambda>r. item_id r = i) st = []"
  by (induction st) auto

lemma filter_present: "i \<in> set (map item_id st) \<Longrightarrow> filter (\<lambda>r. item_id r = i) st \<noteq> []"
  by (induction st) auto

lemma update_item_api_valid:
  assumes "store_available env"
    and "map_of kvs ''name'' = Some nv"
    and "strip (py_str repr nv) \<noteq> []"
    and "length (strip (py_str repr nv)) \<le> 255"
    and "nul_free (strip (py_str repr nv))"
    and "nul_free (strip (py_str repr (case map_of kvs ''description'' of
                                         None \<Rightarrow> JStr [] | Some v \<Rightarrow> v)))"
  shows "update_item_api repr env i (JObj kvs) st =
    (let nm = strip (py_str repr nv);
         descr = strip (py_str repr (case map_of kvs ''description'' of
                                       None \<Rightarrow> JStr [] | Some v \<Rightarrow> v))
     in (case fetchone (filter (\<lambda>r. item_id r = i) (overwrite i nm descr st)) of
           Some r \<Rightarrow> Inr (Json 200 (JObj [(''item'', item_json r),
                                           (''message'', JStr ''Item updated successfully'')]))
         | None \<Rightarrow> Inr (Json 404 (json_error (''Item '' @ str_int i @ '' not found''))),
         overwrite i nm descr st))"
proof -
  from assms(2) have "kvs \<noteq> []" by auto
  with assms show ?thesis
    by (cases "map_of kvs ''description''")
       (simp_all add: update_item_api_def get_db_available execute_available sql_update_def
          overwrite_def Let_def, simp_all split: option.splits)
qed

lemma ui_edit_item_valid:
  assumes "store_available env"
    and "strip (form_get form ''name'' []) \<noteq> []"
    and "length (strip (form_get form ''name'' [])) \<le> 255"
    and "nul_free (strip (form_get form ''name'' []))"
    and "nul_free (strip (form_get form ''description'' []))"
  shows "ui_edit_item env i form st =
    (let nm = strip (form_get form ''name'' []);
         descr = strip (form_get form ''description'' [])
     in (case fetchone (filter (\<lambda>r. item_id r = i) (overwrite i nm descr st)) of
           Some r \<Rightarrow> Inr (Redirect (''Item '' @ str_int i @ '' updated '' @ check_mark) ''success'')
         | None \<Rightarrow> Inr (Redirect (''Item '' @ str_int i @ '' not found.'') ''error''),
         overwrite i nm descr st))"
  using assms
  by (simp add: ui_edit_item_def get_db_available execute_available sql_update_def
      overwrite_def Let_def, simp split: option.splits)

lemma ui_edit_item_store:
  "snd (ui_edit_item env i form st) = st
   \<or> (\<exists>nm descr. snd (ui_edit_item env i form st) = overwrite i nm descr st)"
proof -
  have db: "st' = st \<or> st' = overwrite i nm descr st"
    if "get_db env (\<lambda>s. case execute env (sql_update nm descr i) s of
                          Inl exc \<Rightarrow> Inl exc
                        | Inr (rows, s') \<Rightarrow> Inr (fetchone rows, s')) st = (r, st', tr)"
    for nm descr r st' tr
    using get_db_frame [OF that] by (auto dest: update_body_Inr)
  show ?thesis
    unfolding ui_edit_item_def Let_def
    by (auto split: sum.splits prod.splits option.splits if_splits dest: db)
qed


text \<open>
  C6. Whatever the request and whatever the store does, an update through
  \<^verbatim>\<open>PUT /items/<id>\<close> or through the edit form leaves the table with the same rows in
  the same number: each keeps its id and its creation time, and the rows with another id
  are untouched; when no row has the id, nothing is altered. When the store is available
  and the name is valid (not blank once trimmed, at most 255 characters), the name and the
  description of the row are overwritten with the trimmed values and the answer is 200
  (a success flash), or, when no row has the id, 404 (an error flash).
\<close>

theorem update_overwrites_name_and_description_only:
  "frame_of_update i st (snd (update_item_api repr env i data st))
   \<and> frame_of_update i st (snd (ui_edit_item env i form st))
   \<and> (i \<notin> set (map item_id st) \<longrightarrow>
        snd (update_item_api repr env i data st) = st \<and> snd (ui_edit_item env i form st) = st)
   \<and> (store_available env \<and> data = JObj kvs \<and> map_of kvs ''name'' = Some nv
        \<and> strip (py_str repr nv) \<noteq> [] \<and> length (strip (py_str repr nv)) \<le> 255
        \<and> nul_free (strip (py_str repr nv))
        \<and> nul_free (strip (py_str repr (case map_of kvs ''description'' of
                                            None \<Rightarrow> JStr [] | Some v \<Rightarrow> v))) \<longrightarrow>
        snd (update_item_api repr env i data st)
          = overwrite i (strip (py_str repr nv))
              (strip (py_str repr (case map_of kvs ''description'' of
                                     None \<Rightarrow> JStr [] | Some v \<Rightarrow> v))) st
        \<and> (if i \<in> set (map item_id st)
            then \<exists>r. r \<in> set (snd (update_item_api repr env i data st)) \<and> item_id r = i
                   \<and> fst (update_item_api repr env i data st)
                       = Inr (Json 200 (JObj [(''item'', item_json r),
                                              (''message'', JStr ''Item updated successfully'')]))
            else fst (update_item_api repr env i data st)
                   = Inr (Json 404 (json_error (''Item '' @ str_int i @ '' not found'')))))
   \<and> (store_available env \<and> strip (form_get form ''name'' []) \<noteq> []
        \<and> length (strip (form_get form ''name'' [])) \<le> 255
        \<and> nul_free (strip (form_get form ''name'' []))
        \<and> nul_free (strip (form_get form ''description'' [])) \<longrightarrow>
        snd (ui_edit_item env i form st)
          = overwrite i (strip (form_get form ''name'' []))
              (strip (form_get form ''description'' [])) st
        \<and> fst (ui_edit_item env i form st)
            = (if i \<in> set (map item_id st)
               then Inr (Redirect (''Item '' @ str_int i @ '' updated '' @ check_mark) ''success'')
               else Inr (Redirect (''Item '' @ str_int i @ '' not found.'') ''error'')))"
proof (intro conjI impI)
  show "frame_of_update i st (snd (update_item_api repr env i data st))"
    using update_item_api_store [of repr env i data st]
    by (auto simp: frame_of_update_refl frame_of_update_overwrite)
  show "frame_of_update i st (snd (ui_edit_item env i form st))"
    using ui_edit_item_store [of env i form st]
    by (auto simp: frame_of_update_refl frame_of_update_overwrite)
  show "snd (update_item_api repr env i data st) = st" if "i \<notin> set (map item_id st)"
    using update_item_api_store [of repr env i data st] that
    by (auto simp: overwrite_absent)
  show "snd (ui_edit_item env i form st) = st" if "i \<notin> set (map item_id st)"
    using ui_edit_item_store [of env i form st] that
    by (auto simp: overwrite_absent)
next
  assume a: "store_available env \<and> data = JObj kvs \<and> map_of kvs ''name'' = Some nv
        \<and> strip (py_str repr nv) \<noteq> [] \<and> length (strip (py_str repr nv)) \<le> 255
        \<and> nul_free (strip (py_str repr nv))
        \<and> nul_free (strip (py_str repr (case map_of kvs ''description'' of
                                            None \<Rightarrow> JStr [] | Some v \<Rightarrow> v)))"
  define nm where "nm = strip (py_str repr nv)"
  define descr where "descr = strip (py_str repr (case map_of kvs ''description'' of
                                     None \<Rightarrow> JStr [] | Some v \<Rightarrow> v))"
  from a have eq: "update_item_api repr env i data st =
     (case fetchone (filter (\<lambda>r. item_id r = i) (overwrite i nm descr st)) of
           Some r \<Rightarrow> Inr (Json 200 (JObj [(''item'', item_json r),
                                           (''message'', JStr ''Item updated successfully'')]))
         | None \<Rightarrow> Inr (Json 404 (json_error (''Item '' @ str_int i @ '' not found''))),
         overwrite i nm descr st)"
    by (simp add: update_item_api_valid nm_def descr_def Let_def)
  then show "snd (update_item_api repr env i data st)
          = overwrite i (strip (py_str repr nv))
              (strip (py_str repr (case map_of kvs ''description'' of
                                     None \<Rightarrow> JStr [] | Some v \<Rightarrow> v))) st"
    by (simp add: nm_def descr_def)
  show "if i \<in> set (map item_id st)
            then \<exists>r. r \<in> set (snd (update_item_api repr env i data st)) \<and> item_id r = i
                   \<and> fst (update_item_api repr env i data st)
                       = Inr (Json 200 (JObj [(''item'', item_json r),
                                              (''message'', JStr ''Item updated successfully'')]))
            else fst (update_item_api repr env i data st)
                   = Inr (Json 404 (json_error (''Item '' @ str_int i @ '' not found'')))"
  proof (cases "i \<in> set (map item_id st)")
    case False
    then have "filter (\<lambda>r. item_id r = i) (overwrite i nm descr st) = []"
      by (simp add: overwrite_absent filter_absent)
    with False eq show ?thesis by (simp add: fetchone_def)
  next
    case True
    then have "i \<in> set (map item_id (overwrite i nm descr st))"
      by (auto simp: overwrite_def)
    then obtain r rs where f: "filter (\<lambda>r. item_id r = i) (overwrite i nm descr st) = r # rs"
      using filter_present [of i "overwrite i nm descr st"]
      by (cases "filter (\<lambda>r. item_id r = i) (overwrite i nm descr st)") auto
    then have "r \<in> set (filter (\<lambda>r. item_id r = i) (overwrite i nm descr st))"
      by simp
    then have "r \<in> set (overwrite i nm descr st)" "item_id r = i"
      by auto
    with True eq f show ?thesis by (auto simp: fetchone_def)
  qed
next
  assume a: "store_available env \<and> strip (form_get form ''name'' []) \<noteq> []
        \<and> length (strip (form_get form ''name'' [])) \<le> 255
        \<and> nul_free (strip (form_get form ''name'' []))
        \<and> nul_free (strip (form_get form ''description'' []))"
  define nm where "nm = strip (form_get form ''name'' [])"
  define descr where "descr = strip (form_get form ''description'' [])"
  from a have eq: "ui_edit_item env i form st =
     (case fetchone (filter (\<lambda>r. item_id r = i) (overwrite i nm descr st)) of
           Some r \<Rightarrow> Inr (Redirect (''Item '' @ str_int i @ '' updated '' @ check_mark) ''success'')
         | None \<Rightarrow> Inr (Redirect (''Item '' @ str_int i @ '' not found.'') ''error''),
         overwrite i nm descr st)"
    by (simp add: ui_edit_item_valid nm_def descr_def Let_def)
  then show "snd (ui_edit_item env i form st)
          = overwrite i (strip (form_get form ''name'' []))
              (strip (form_get form ''description'' [])) st"
    by (simp add: nm_def descr_def)
  show "fst (ui_edit_item env i form st)
            = (if i \<in> set (map item_id st)
               then Inr (Redirect (''Item '' @ str_int i @ '' updated '' @ check_mark) ''success'')
               else Inr (Redirect (''Item '' @ str_int i @ '' not found.'') ''error''))"
  proof (cases "i \<in> set (map item_id st)")
    case False
    then have "filter (\<lambda>r. item_id r = i) (overwrite i nm descr st) = []"
      by (simp add: overwrite_absent filter_absent)
    with False eq show ?thesis by (simp add: fetchone_def)
  next
    case True
    then have "i \<in> set (map item_id (overwrite i nm descr st))"
      by (auto simp: overwrite_def)
    then obtain r rs where f: "filter (\<lambda>r. item_id r = i) (overwrite i nm descr st) = r # rs"
      using filter_present [of i "overwrite i nm descr st"]
      by (cases "filter (\<lambda>r. item_id r = i) (overwrite i nm descr st)") auto
    with True eq show ?thesis by (simp add: fetchone_def)
  qed
qed


theorem update_overwrites_name_and_description_only_witness:
  "snd (update_item_api (\<lambda>v. []) (env_up 9) 3
          (JObj [(''name'', JStr '' washer ''), (''description'', JStr ''m8'')])
          [\<lparr>item_id = 3, name = ''nut'', description = Some ''old'', created_at = ''2024-01-01''\<rparr>,
           \<lparr>item_id = 4, name = ''bolt'', description = None, created_at = ''2024-01-02''\<rparr>])
     = [\<lparr>item_id = 3, name = ''washer'', description = Some ''m8'', created_at = ''2024-01-01''\<rparr>,
        \<lparr>item_id = 4, name = ''bolt'', description = None, created_at = ''2024-01-02''\<rparr>]
   \<and> update_item_api (\<lambda>v. []) (env_up 9) 7
          (JObj [(''name'', JStr '' washer ''), (''description'', JStr ''m8'')])
          [\<lparr>item_id = 3, name = ''nut'', description = Some ''old'', created_at = ''2024-01-01''\<rparr>,
           \<lparr>item_id = 4, name = ''bolt'', description = None, created_at = ''2024-01-02''\<rparr>]
     = (Inr (Json 404 (json_error ''Item 7 not found'')),
        [\<lparr>item_id = 3, name = ''nut'', description = Some ''old'', created_at = ''2024-01-01''\<rparr>,
         \<lparr>item_id = 4, name = ''bolt'', description = None, created_at = ''2024-01-02''\<rparr>])
   \<and> ui_edit_item (env_up 9) 7 [''name'' \<mapsto> ''washer'']
          [\<lparr>item_id = 3, name = ''nut'', description = Some ''old'', created_at = ''2024-01-01''\<rparr>,
           \<lparr>item_id = 4, name = ''bolt'', description = None, created_at = ''2024-01-02''\<rparr>]
     = (Inr (Redirect ''Item 7 not found.'' ''error''),
        [\<lparr>item_id = 3, name = ''nut'', description = Some ''old'', created_at = ''2024-01-01''\<rparr>,
         \<lparr>item_id = 4, name = ''bolt'', description = None, created_at = ''2024-01-02''\<rparr>])
   \<and> frame_of_update 3
         [\<lparr>item_id = 3, name = ''nut'', description = Some ''old'', created_at = ''2024-01-01''\<rparr>,
          \<lparr>item_id = 4, name = ''bolt'', description = None, created_at = ''2024-01-02''\<rparr>]
         [\<lparr>item_id = 3, name = ''washer'', description = Some ''m8'', created_at = ''2024-01-01''\<rparr>,
          \<lparr>item_id = 4, name = ''bolt'', description = None, created_at = ''2024-01-02''\<rparr>]"
proof -
  let ?st = "[\<lparr>item_id = 3, name = ''nut'', description = Some ''old'', created_at = ''2024-01-01''\<rparr>,
              \<lparr>item_id = 4, name = ''bolt'', description = None, created_at = ''2024-01-02''\<rparr>]"
  let ?kvs = "[(''name'', JStr '' washer ''), (''description'', JStr ''m8'')]"
  let ?form = "[''name'' \<mapsto> ''washer'']"
  let ?repr = "\<lambda>v :: json. [] :: string"
  note at3 = update_overwrites_name_and_description_only
    [of 3 ?st ?repr "env_up 9" "JObj ?kvs" ?form ?kvs "JStr '' washer ''"]
  note at7 = update_overwrites_name_and_description_only
    [of 7 ?st ?repr "env_up 9" "JObj ?kvs" ?form ?kvs "JStr '' washer ''"]
  have washer: "strip '' washer '' = ''washer''" "strip ''washer'' = ''washer''"
    "strip ''m8'' = ''m8''" "strip [] = []"
    by (simp_all add: strip_def is_space_def)
  have api: "store_available (env_up 9) \<and> JObj ?kvs = JObj ?kvs
      \<and> map_of ?kvs ''name'' = Some (JStr '' washer '')
      \<and> strip (py_str ?repr (JStr '' washer '')) \<noteq> []
      \<and> length (strip (py_str ?repr (JStr '' washer ''))) \<le> 255
      \<and> nul_free (strip (py_str ?repr (JStr '' washer '')))
      \<and> nul_free (strip (py_str ?repr (case map_of ?kvs ''description'' of
                                           None \<Rightarrow> JStr [] | Some v \<Rightarrow> v)))"
    by (simp add: env_up_available washer nul_free_def)
  have ui: "store_available (env_up 9) \<and> strip (form_get ?form ''name'' []) \<noteq> []
      \<and> length (strip (form_get ?form ''name'' [])) \<le> 255
      \<and> nul_free (strip (form_get ?form ''name'' []))
      \<and> nul_free (strip (form_get ?form ''description'' []))"
    by (simp add: env_up_available form_get_def washer nul_free_def)
  have absent: "7 \<notin> set (map item_id ?st)"
    by simp
  have frame3: "frame_of_update 3 ?st (snd (update_item_api ?repr (env_up 9) 3 (JObj ?kvs) ?st))"
    by (rule at3 [THEN conjunct1])
  have store3: "snd (update_item_api ?repr (env_up 9) 3 (JObj ?kvs) ?st)
      = [\<lparr>item_id = 3, name = ''washer'', description = Some ''m8'', created_at = ''2024-01-01''\<rparr>,
         \<lparr>item_id = 4, name = ''bolt'', description = None, created_at = ''2024-01-02''\<rparr>]"
    using at3 [THEN conjunct2, THEN conjunct2, THEN conjunct2, THEN conjunct1, THEN mp, OF api,
        THEN conjunct1]
    by (simp add: washer overwrite_def)
  have same7: "snd (update_item_api ?repr (env_up 9) 7 (JObj ?kvs) ?st) = ?st
      \<and> snd (ui_edit_item (env_up 9) 7 ?form ?st) = ?st"
    by (rule at7 [THEN conjunct2, THEN conjunct2, THEN conjunct1, THEN mp, OF absent])
  have api7: "fst (update_item_api ?repr (env_up 9) 7 (JObj ?kvs) ?st)
      = Inr (Json 404 (json_error ''Item 7 not found''))"
    using at7 [THEN conjunct2, THEN conjunct2, THEN conjunct2, THEN conjunct1, THEN mp, OF api,
        THEN conjunct2]
    by (simp add: str_int_def str_nat.simps)
  have ui7: "fst (ui_edit_item (env_up 9) 7 ?form ?st)
      = Inr (Redirect ''Item 7 not found.'' ''error'')"
    using at7 [THEN conjunct2, THEN conjunct2, THEN conjunct2, THEN conjunct2, THEN mp, OF ui,
        THEN conjunct2]
    by (simp add: str_int_def str_nat.simps)
  from frame3 store3 same7 api7 ui7 show ?thesis
    by (simp add: prod_eq_iff)
qed


text \<open>
  C10. A \<^verbatim>\<open>PUT /items/<id>\<close> whose JSON object has a valid name and no
  \<^verbatim>\<open>description\<close> field writes the empty string into the description of the row: the
  missing field defaults to \<^verbatim>\<open>""\<close> and the \<^verbatim>\<open>UPDATE\<close> always sets both columns, so
  the description stored before is lost.
\<close>

theorem update_item_api_omitted_description:
  assumes "store_available env"
    and "map_of kvs ''name'' = Some nv"
    and "map_of kvs ''description'' = None"
    and "strip (py_str repr nv) \<noteq> []"
    and "length (strip (py_str repr nv)) \<le> 255"
    and "nul_free (strip (py_str repr nv))"
  shows "snd (update_item_api repr env i (JObj kvs) st)
           = overwrite i (strip (py_str repr nv)) [] st
    \<and> (\<forall>r \<in> set (snd (update_item_api repr env i (JObj kvs) st)).
          item_id r = i \<longrightarrow> description r = Some [])
    \<and> (i \<in> set (map item_id st) \<longrightarrow>
         (\<exists>r. fst (update_item_api repr env i (JObj kvs) st)
                 = Inr (Json 200 (JObj [(''item'', item_json r),
                                        (''message'', JStr ''Item updated successfully'')]))
              \<and> item_id r = i \<and> description r = Some []))"
proof -
  define nm where "nm = strip (py_str repr nv)"
  define st' where "st' = overwrite i nm [] st"
  have empty: "strip [] = []"
    by (simp add: strip_def)
  have d: "(case map_of kvs ''description'' of None \<Rightarrow> JStr [] | Some v \<Rightarrow> v) = JStr []"
    using assms(3) by simp
  have n: "nul_free (strip (py_str repr (case map_of kvs ''description'' of
                                         None \<Rightarrow> JStr [] | Some v \<Rightarrow> v)))"
    unfolding d by (simp add: empty nul_free_def)
  note v = update_item_api_valid [OF assms(1) assms(2) assms(4) assms(5) assms(6) n, of i st]
  have eq: "update_item_api repr env i (JObj kvs) st =
     (case fetchone (filter (\<lambda>r. item_id r = i) st') of
           Some r \<Rightarrow> Inr (Json 200 (JObj [(''item'', item_json r),
                                           (''message'', JStr ''Item updated successfully'')]))
         | None \<Rightarrow> Inr (Json 404 (json_error (''Item '' @ str_int i @ '' not found''))),
         st')"
    unfolding v d Let_def st'_def nm_def by (simp add: empty)
  have store: "snd (update_item_api repr env i (JObj kvs) st) = st'"
    unfolding eq by simp
  have written: "description r = Some []" if "r \<in> set st'" and "item_id r = i" for r
  proof -
    from that(1) obtain r0 where "r0 \<in> set st"
      and r: "r = (if item_id r0 = i then r0\<lparr>name := nm, description := Some []\<rparr> else r0)"
      unfolding st'_def overwrite_def by auto
    show ?thesis
    proof (cases "item_id r0 = i")
      case True
      with r show ?thesis by simp
    next
      case False
      with r that(2) show ?thesis by simp
    qed
  qed
  have answer: "\<exists>r. fst (update_item_api repr env i (JObj kvs) st)
                 = Inr (Json 200 (JObj [(''item'', item_json r),
                                        (''message'', JStr ''Item updated successfully'')]))
              \<and> item_id r = i \<and> description r = Some []"
    if present: "i \<in> set (map item_id st)"
  proof -
    from present have "i \<in> set (map item_id st')"
      unfolding st'_def overwrite_def by auto
    then have "filter (\<lambda>r. item_id r = i) st' \<noteq> []"
      by (rule filter_present)
    then obtain r rs where f: "filter (\<lambda>r. item_id r = i) st' = r # rs"
      by (cases "filter (\<lambda>r. item_id r = i) st'") auto
    then have "r \<in> set (filter (\<lambda>r. item_id r = i) st')"
      by simp
    then have m: "r \<in> set st'" and idr: "item_id r = i"
      by simp_all
    have "fst (update_item_api repr env i (JObj kvs) st)
            = Inr (Json 200 (JObj [(''item'', item_json r),
                                   (''message'', JStr ''Item updated successfully'')]))"
      unfolding eq f by (simp add: fetchone_def)
    with idr written [OF m idr] show ?thesis by blast
  qed
  show ?thesis
  proof (intro conjI ballI impI)
    show "snd (update_item_api repr env i (JObj kvs) st)
            = overwrite i (strip (py_str repr nv)) [] st"
      using store unfolding st'_def nm_def .
  next
    fix r assume "r \<in> set (snd (update_item_api repr env i (JObj kvs) st))" and "item_id r = i"
    then show "description r = Some []"
      unfolding store by (rule written)
  next
    assume "i \<in> set (map item_id st)"
    then show "\<exists>r. fst (update_item_api repr env i (JObj kvs) st)
                 = Inr (Json 200 (JObj [(''item'', item_json r),
                                        (''message'', JStr ''Item updated successfully'')]))
              \<and> item_id r = i \<and> description r = Some []"
      by (rule answer)
  qed
qed


theorem update_item_api_omitted_description_witness:
  "snd (update_item_api (\<lambda>v. []) (env_up 9) 3 (JObj [(''name'', JStr ''washer'')])
     [\<lparr>item_id = 3, name = ''nut'', description = Some ''old'', created_at = ''2024-01-01''\<rparr>])
   = [\<lparr>item_id = 3, name = ''washer'', description = Some [], created_at = ''2024-01-01''\<rparr>]
   \<and> (\<exists>r. fst (update_item_api (\<lambda>v. []) (env_up 9) 3 (JObj [(''name'', JStr ''washer'')])
          [\<lparr>item_id = 3, name = ''nut'', description = Some ''old'', created_at = ''2024-01-01''\<rparr>])
          = Inr (Json 200 (JObj [(''item'', item_json r),
                                 (''message'', JStr ''Item updated successfully'')]))
        \<and> item_id r = 3 \<and> description r = Some [])"
proof -
  let ?st = "[\<lparr>item_id = 3, name = ''nut'', description = Some ''old'', created_at = ''2024-01-01''\<rparr>]"
  let ?kvs = "[(''name'', JStr ''washer'')]"
  let ?repr = "\<lambda>v :: json. [] :: string"
  have washer: "strip ''washer'' = ''washer''"
    by (simp add: strip_def is_space_def)
  have h1: "store_available (env_up 9)"
    by (rule env_up_available)
  have h2: "map_of ?kvs ''name'' = Some (JStr ''washer'')"
    by simp
  have h3: "map_of ?kvs ''description'' = None"
    by simp
  have h4: "strip (py_str ?repr (JStr ''washer'')) \<noteq> []"
    by (simp add: washer)
  have h5: "length (strip (py_str ?repr (JStr ''washer''))) \<le> 255"
    by (simp add: washer)
  have h6: "nul_free (strip (py_str ?repr (JStr ''washer'')))"
    by (simp add: washer nul_free_def)
  note t = update_item_api_omitted_description [OF h1 h2 h3 h4 h5 h6, of 3 ?st]
  have present: "3 \<in> set (map item_id ?st)"
    by simp
  have ov: "overwrite 3 (strip (py_str ?repr (JStr ''washer''))) [] ?st
      = [\<lparr>item_id = 3, name = ''washer'', description = Some [], created_at = ''2024-01-01''\<rparr>]"
    by (simp add: washer overwrite_def)
  from t [THEN conjunct1]
  have store: "snd (update_item_api ?repr (env_up 9) 3 (JObj ?kvs) ?st)
      = [\<lparr>item_id = 3, name = ''washer'', description = Some [], created_at = ''2024-01-01''\<rparr>]"
    unfolding ov .
  from store t [THEN conjunct2, THEN conjunct2, THEN mp, OF present]
  show ?thesis by (rule conjI)
qed


subsection \<open>Deleting\<close>

lemma sql_delete_body:
  "(case execute env (sql_delete i) st of
      Inl exc \<Rightarrow> Inl exc
    | Inr (rows, s') \<Rightarrow> Inr (fetchone rows, s')) = Inr (v, st')
   \<Longrightarrow> st' = filter (\<lambda>r. item_id r \<noteq> i) st"
  by (auto simp: execute_def sql_delete_def split: option.splits)

lemma ui_delete_item_store:
  "snd (ui_delete_item env i st) = st
   \<or> snd (ui_delete_item env i st) = filter (\<lambda>r. item_id r \<noteq> i) st"
proof -
  obtain r st' tr where g: "get_db env
             (\<lambda>s. case execute env (sql_delete i) s of
                    Inl exc \<Rightarrow> Inl exc
                  | Inr (rows, s') \<Rightarrow> Inr (fetchone rows, s')) st = (r, st', tr)"
    by (rule prod_cases3)
  from get_db_frame [OF g] have "st' = st \<or> st' = filter (\<lambda>r. item_id r \<noteq> i) st"
    by (auto dest: sql_delete_body)
  moreover have "snd (ui_delete_item env i st) = st'"
    unfolding ui_delete_item_def g by (simp split: sum.splits option.splits)
  ultimately show ?thesis by simp
qed

lemma delete_item_api_store:
  "snd (delete_item_api env i st) = st
   \<or> snd (delete_item_api env i st) = filter (\<lambda>r. item_id r \<noteq> i) st"
proof -
  obtain r st' tr where g: "get_db env
             (\<lambda>s. case execute env (sql_delete i) s of
                    Inl exc \<Rightarrow> Inl exc
                  | Inr (rows, s') \<Rightarrow> Inr (fetchone rows, s')) st = (r, st', tr)"
    by (rule prod_cases3)
  from get_db_frame [OF g] have "st' = st \<or> st' = filter (\<lambda>r. item_id r \<noteq> i) st"
    by (auto dest: sql_delete_body)
  moreover have "snd (delete_item_api env i st) = st'"
    unfolding delete_item_api_def g by (simp split: sum.splits option.splits)
  ultimately show ?thesis by simp
qed

lemma ui_delete_item_available:
  assumes "store_available env"
  shows "ui_delete_item env i st =
    (case fetchone (filter (\<lambda>r. item_id r = i) st) of
       Some r \<Rightarrow> Inr (Redirect (''Item '' @ sq @ name r @ sq @ '' deleted '' @ check_mark)
                         ''success'')
     | None \<Rightarrow> Inr (Redirect (''Item '' @ str_int i @ '' not found.'') ''error''),
     filter (\<lambda>r. item_id r \<noteq> i) st)"
  using assms
  by (simp add: ui_delete_item_def get_db_available execute_available sql_delete_def,
      simp split: option.splits)

lemma delete_item_api_available:
  assumes "store_available env"
  shows "delete_item_api env i st =
    (case fetchone (filter (\<lambda>r. item_id r = i) st) of
       Some r \<Rightarrow> Inr (Json 200 (JObj [(''message'', JStr (''Item '' @ str_int i @ '' deleted''))]))
     | None \<Rightarrow> Inr (Json 404 (json_error (''Item '' @ str_int i @ '' not found''))),
     filter (\<lambda>r. item_id r \<noteq> i) st)"
  using assms
  by (simp add: delete_item_api_def get_db_available execute_available sql_delete_def,
      simp split: option.splits)

lemma filter_others_absent:
  "i \<notin> set (map item_id st) \<Longrightarrow> filter (\<lambda>r. item_id r \<noteq> i) st = st"
  by (induction st) auto

lemma absent_after_delete: "i \<notin> set (map item_id (filter (\<lambda>r. item_id r \<noteq> i) st))"
  by (induction st) auto

lemma delete_one_row:
  "distinct (map item_id st) \<Longrightarrow> i \<in> set (map item_id st) \<Longrightarrow>
   Suc (length (filter (\<lambda>r. item_id r \<noteq> i) st)) = length st"
proof (induction st)
  case Nil
  then show ?case by simp
next
  case (Cons r st)
  show ?case
  proof (cases "item_id r = i")
    case True
    with Cons.prems have "i \<notin> set (map item_id st)" by auto
    then have "filter (\<lambda>r. item_id r \<noteq> i) st = st" by (rule filter_others_absent)
    with True show ?thesis by simp
  next
    case False
    with Cons show ?thesis by auto
  qed
qed

text \<open>
  C7, as the code has it. A delete never removes a row with another id: the table
  afterwards is the table of before, or that table without the rows of the id. When the
  store is available and a row has the id, the rows of the id are removed (one row, the
  ids being unique); the delete form reports the name of the deleted item in its success
  flash, while \<^verbatim>\<open>DELETE /items/<id>\<close> answers 200 with a message that gives the id.
  When no row has the id, and so for a second delete of the same id, the answer is an
  error flash or 404 and the table is as before.
\<close>

theorem delete_removes_the_row:
  "(snd (ui_delete_item env i st) = st
      \<or> snd (ui_delete_item env i st) = filter (\<lambda>r. item_id r \<noteq> i) st)
   \<and> (snd (delete_item_api env i st) = st
      \<or> snd (delete_item_api env i st) = filter (\<lambda>r. item_id r \<noteq> i) st)
   \<and> (store_available env \<and> fetchone (filter (\<lambda>r. item_id r = i) st) = Some r \<longrightarrow>
        ui_delete_item env i st
          = (Inr (Redirect (''Item '' @ sq @ name r @ sq @ '' deleted '' @ check_mark)
                    ''success''),
             filter (\<lambda>r. item_id r \<noteq> i) st)
        \<and> delete_item_api env i st
          = (Inr (Json 200 (JObj [(''message'', JStr (''Item '' @ str_int i @ '' deleted''))])),
             filter (\<lambda>r. item_id r \<noteq> i) st))
   \<and> (distinct (map item_id st) \<and> i \<in> set (map item_id st) \<longrightarrow>
        Suc (length (filter (\<lambda>r. item_id r \<noteq> i) st)) = length st)
   \<and> (store_available env \<and> i \<notin> set (map item_id st) \<longrightarrow>
        ui_delete_item env i st
          = (Inr (Redirect (''Item '' @ str_int i @ '' not found.'') ''error''), st)
        \<and> delete_item_api env i st
          = (Inr (Json 404 (json_error (''Item '' @ str_int i @ '' not found''))), st))
   \<and> (store_available env \<longrightarrow>
        ui_delete_item env i (filter (\<lambda>r. item_id r \<noteq> i) st)
          = (Inr (Redirect (''Item '' @ str_int i @ '' not found.'') ''error''),
             filter (\<lambda>r. item_id r \<noteq> i) st)
        \<and> delete_item_api env i (filter (\<lambda>r. item_id r \<noteq> i) st)
          = (Inr (Json 404 (json_error (''Item '' @ str_int i @ '' not found''))),
             filter (\<lambda>r. item_id r \<noteq> i) st))"
proof -
  have absent: "ui_delete_item env i s
          = (Inr (Redirect (''Item '' @ str_int i @ '' not found.'') ''error''), s)
        \<and> delete_item_api env i s
          = (Inr (Json 404 (json_error (''Item '' @ str_int i @ '' not found''))), s)"
    if "store_available env" and "i \<notin> set (map item_id s)" for s
  proof -
    from that(2) have "filter (\<lambda>r. item_id r = i) s = []"
      by (rule filter_absent)
    moreover from that(2) have "filter (\<lambda>r. item_id r \<noteq> i) s = s"
      by (rule filter_others_absent)
    ultimately show ?thesis
      by (simp add: ui_delete_item_available [OF that(1)]
          delete_item_api_available [OF that(1)] fetchone_def)
  qed
  have present: "ui_delete_item env i st
          = (Inr (Redirect (''Item '' @ sq @ name r @ sq @ '' deleted '' @ check_mark)
                    ''success''),
             filter (\<lambda>r. item_id r \<noteq> i) st)
        \<and> delete_item_api env i st
          = (Inr (Json 200 (JObj [(''message'', JStr (''Item '' @ str_int i @ '' deleted''))])),
             filter (\<lambda>r. item_id r \<noteq> i) st)"
    if "store_available env" and "fetchone (filter (\<lambda>r. item_id r = i) st) = Some r"
    using that(2)
    by (simp add: ui_delete_item_available [OF that(1)]
        delete_item_api_available [OF that(1)])
  show ?thesis
  proof (intro conjI impI)
    show "snd (ui_delete_item env i st) = st
      \<or> snd (ui_delete_item env i st) = filter (\<lambda>r. item_id r \<noteq> i) st"
      by (rule ui_delete_item_store)
    show "snd (delete_item_api env i st) = st
      \<or> snd (delete_item_api env i st) = filter (\<lambda>r. item_id r \<noteq> i) st"
      by (rule delete_item_api_store)
    show "Suc (length (filter (\<lambda>r. item_id r \<noteq> i) st)) = length st"
      if "distinct (map item_id st) \<and> i \<in> set (map item_id st)"
      using that by (auto intro: delete_one_row)
  next
    assume a: "store_available env \<and> fetchone (filter (\<lambda>r. item_id r = i) st) = Some r"
    then show "ui_delete_item env i st
          = (Inr (Redirect (''Item '' @ sq @ name r @ sq @ '' deleted '' @ check_mark)
                    ''success''),
             filter (\<lambda>r. item_id r \<noteq> i) st)"
      using present by blast
    from a show "delete_item_api env i st
          = (Inr (Json 200 (JObj [(''message'', JStr (''Item '' @ str_int i @ '' deleted''))])),
             filter (\<lambda>r. item_id r \<noteq> i) st)"
      using present by blast
  next
    assume a: "store_available env \<and> i \<notin> set (map item_id st)"
    then show "ui_delete_item env i st
          = (Inr (Redirect (''Item '' @ str_int i @ '' not found.'') ''error''), st)"
      using absent [of st] by blast
    from a show "delete_item_api env i st
          = (Inr (Json 404 (json_error (''Item '' @ str_int i @ '' not found''))), st)"
      using absent [of st] by blast
  next
    assume a: "store_available env"
    from absent [OF a absent_after_delete, of st]
    show "ui_delete_item env i (filter (\<lambda>r. item_id r \<noteq> i) st)
          = (Inr (Redirect (''Item '' @ str_int i @ '' not found.'') ''error''),
             filter (\<lambda>r. item_id r \<noteq> i) st)"
      by (rule conjunct1)
    from absent [OF a absent_after_delete, of st]
    show "delete_item_api env i (filter (\<lambda>r. item_id r \<noteq> i) st)
          = (Inr (Json 404 (json_error (''Item '' @ str_int i @ '' not found''))),
             filter (\<lambda>r. item_id r \<noteq> i) st)"
      by (rule conjunct2)
  qed
qed

theorem delete_removes_the_row_witness:
  "ui_delete_item (env_up 9) 3
     [\<lparr>item_id = 3, name = ''nut'', description = Some ''old'', created_at = ''2024-01-01''\<rparr>,
      \<lparr>item_id = 4, name = ''bolt'', description = None, created_at = ''2024-01-02''\<rparr>]
   = (Inr (Redirect (''Item '' @ sq @ ''nut'' @ sq @ '' deleted '' @ check_mark) ''success''),
      [\<lparr>item_id = 4, name = ''bolt'', description = None, created_at = ''2024-01-02''\<rparr>])
   \<and> delete_item_api (env_up 9) 3
     [\<lparr>item_id = 3, name = ''nut'', description = Some ''old'', created_at = ''2024-01-01''\<rparr>,
      \<lparr>item_id = 4, name = ''bolt'', description = None, created_at = ''2024-01-02''\<rparr>]
   = (Inr (Json 200 (JObj [(''message'', JStr ''Item 3 deleted'')])),
      [\<lparr>item_id = 4, name = ''bolt'', description = None, created_at = ''2024-01-02''\<rparr>])
   \<and> delete_item_api (env_up 9) 3
     [\<lparr>item_id = 4, name = ''bolt'', description = None, created_at = ''2024-01-02''\<rparr>]
   = (Inr (Json 404 (json_error ''Item 3 not found'')),
      [\<lparr>item_id = 4, name = ''bolt'', description = None, created_at = ''2024-01-02''\<rparr>])
   \<and> ui_delete_item (env_up 9) 7
     [\<lparr>item_id = 3, name = ''nut'', description = Some ''old'', created_at = ''2024-01-01''\<rparr>,
      \<lparr>item_id = 4, name = ''bolt'', description = None, created_at = ''2024-01-02''\<rparr>]
   = (Inr (Redirect ''Item 7 not found.'' ''error''),
      [\<lparr>item_id = 3, name = ''nut'', description = Some ''old'', created_at = ''2024-01-01''\<rparr>,
       \<lparr>item_id = 4, name = ''bolt'', description = None, created_at = ''2024-01-02''\<rparr>])
   \<and> Suc (length [\<lparr>item_id = 4, name = ''bolt'', description = None,
                      created_at = ''2024-01-02''\<rparr>]) = 2"
proof -
  let ?nut = "\<lparr>item_id = 3, name = ''nut'', description = Some ''old'', created_at = ''2024-01-01''\<rparr>"
  let ?bolt = "\<lparr>item_id = 4, name = ''bolt'', description = None, created_at = ''2024-01-02''\<rparr>"
  let ?st = "[?nut, ?bolt]"
  note at3 = delete_removes_the_row [of "env_up 9" 3 ?st ?nut]
  note at7 = delete_removes_the_row [of "env_up 9" 7 ?st ?nut]
  have left: "filter (\<lambda>r. item_id r \<noteq> 3) ?st = [?bolt]"
    by simp
  have three: "str_int 3 = ''3''" and seven: "str_int 7 = ''7''"
    by (simp_all add: str_int_def str_nat.simps)
  have found: "store_available (env_up 9)
      \<and> fetchone (filter (\<lambda>r. item_id r = 3) ?st) = Some ?nut"
    by (simp add: env_up_available fetchone_def)
  have unique: "distinct (map item_id ?st) \<and> 3 \<in> set (map item_id ?st)"
    by simp
  have missing: "store_available (env_up 9) \<and> 7 \<notin> set (map item_id ?st)"
    by (simp add: env_up_available)
  have up: "store_available (env_up 9)"
    by (rule env_up_available)
  from at3 [THEN conjunct2, THEN conjunct2, THEN conjunct1, THEN mp, OF found]
  have a: "ui_delete_item (env_up 9) 3 ?st
      = (Inr (Redirect (''Item '' @ sq @ ''nut'' @ sq @ '' deleted '' @ check_mark) ''success''),
         [?bolt])"
    and b: "delete_item_api (env_up 9) 3 ?st
      = (Inr (Json 200 (JObj [(''message'', JStr ''Item 3 deleted'')])), [?bolt])"
    unfolding left three by simp_all
  from at3 [THEN conjunct2, THEN conjunct2, THEN conjunct2, THEN conjunct1, THEN mp, OF unique]
  have c: "Suc (length [?bolt]) = 2"
    unfolding left by simp
  from at3 [THEN conjunct2, THEN conjunct2, THEN conjunct2, THEN conjunct2, THEN conjunct2,
      THEN mp, OF up, THEN conjunct2]
  have d: "delete_item_api (env_up 9) 3 [?bolt]
      = (Inr (Json 404 (json_error ''Item 3 not found'')), [?bolt])"
    unfolding left three by simp
  from at7 [THEN conjunct2, THEN conjunct2, THEN conjunct2, THEN conjunct2, THEN conjunct1,
      THEN mp, OF missing, THEN conjunct1]
  have e: "ui_delete_item (env_up 9) 7 ?st
      = (Inr (Redirect ''Item 7 not found.'' ''error''), ?st)"
    unfolding seven by simp
  from a b d e c show ?thesis by (intro conjI)
qed

text \<open>
  The claim has every delete return the name of the deleted item. The statement of
  \<^verbatim>\<open>delete_item_api\<close> is \<^verbatim>\<open>DELETE ... RETURNING id\<close>, and its answer is built from the
  id of the route: for the item named \<^verbatim>\<open>widget\<close> the body is
  \<^verbatim>\<open>{"message": "Item 1 deleted"}\<close>, in which the name does not occur.
\<close>

theorem delete_item_api_answers_id_counterexample:
  "delete_item_api (env_up 9) 1
     [\<lparr>item_id = 1, name = ''widget'', description = Some ''d'', created_at = ''2024-01-01''\<rparr>]
   = (Inr (Json 200 (JObj [(''message'', JStr ''Item 1 deleted'')])), [])
   \<and> \<not> is_substring ''widget'' ''Item 1 deleted''"
  by (simp add: delete_item_api_available env_up_available fetchone_def str_int_def
      str_nat.simps)


subsection \<open>Creating and reading back\<close>









subsection \<open>Creating without a name\<close>

lemma create_without_name_keeps_table:
  "py_not data \<or> py_in ''name'' data \<noteq> Inr True \<Longrightarrow>
   snd (create_item_api repr env data st) = st"
  by (auto simp: create_item_api_def split: sum.splits)

lemma ui_create_blank_name_rejected:
  "strip (form_get form ''name'' []) = [] \<Longrightarrow>
   ui_create_item env form st = (Inr (Redirect ''Item name is required.'' ''error''), st)"
  by (simp add: ui_create_item_def)

text \<open>
  C5. The claim is that a create request without a name is answered 400 by the API before
  any store operation. For a JSON body that is the number 5, \<^verbatim>\<open>not data\<close> is false and the
  test \<^verbatim>\<open>"name" not in data\<close> raises a \<^verbatim>\<open>TypeError\<close>, outside any \<^verbatim>\<open>try\<close>: the
  exception leaves the view, which Flask answers with 500, not 400. The table is not
  touched.
\<close>

theorem create_item_api_number_body:
  "(case fst (create_item_api (\<lambda>v. []) (env_up 1) (JInt 5) []) of
      Inl exc \<Rightarrow> is_TypeError exc
    | Inr resp \<Rightarrow> False)
   \<and> snd (create_item_api (\<lambda>v. []) (env_up 1) (JInt 5) []) = []"
  by (simp add: create_item_api_def)

end
